theory Spec2Isabelle
  imports Complex_Main "HOL-Library.Log_Nat"
begin

section \<open>Strings of the program\<close>

text \<open>
  The program is TypeScript: its strings are sequences of UTF-16 code units. A \<^typ>\<open>char\<close>
  of this development stands for one code unit below 256, so \<^typ>\<open>string\<close> covers the
  Latin-1 part of the program's strings; \<open>length\<close> counts code units as the program's
  \<^verbatim>\<open>.length\<close> does. The character classes below are the ECMAScript ones restricted to
  that range.
\<close>

abbreviation BSL :: char where "BSL \<equiv> CHR 0x5C"
abbreviation DQ :: char where "DQ \<equiv> CHR 0x22"
abbreviation LF :: char where "LF \<equiv> CHR 0x0A"
abbreviation CR :: char where "CR \<equiv> CHR 0x0D"
abbreviation TAB :: char where "TAB \<equiv> CHR 0x09"

definition is_space :: "char \<Rightarrow> bool" where
  \<comment> \<open>the class \<^verbatim>\<open>\s\<close>, which is also what \<^verbatim>\<open>trim()\<close> strips: TAB, LF, VT, FF, CR, space, NBSP\<close>
  "is_space c \<longleftrightarrow> c = TAB \<or> c = LF \<or> c = CHR 0x0B \<or> c = CHR 0x0C \<or> c = CR
     \<or> c = CHR 0x20 \<or> c = CHR 0xA0"

definition code_unit :: "char \<Rightarrow> nat" where
  "code_unit c = of_char c"

definition is_digit :: "char \<Rightarrow> bool" where
  \<comment> \<open>the class \<^verbatim>\<open>\d\<close>: 0 to 9\<close>
  "is_digit c \<longleftrightarrow> 48 \<le> code_unit c \<and> code_unit c \<le> 57"

definition is_word :: "char \<Rightarrow> bool" where
  \<comment> \<open>the class \<^verbatim>\<open>\w\<close>: a to z, A to Z, digits, underscore\<close>
  "is_word c \<longleftrightarrow> (97 \<le> code_unit c \<and> code_unit c \<le> 122) \<or> (65 \<le> code_unit c \<and> code_unit c \<le> 90)
     \<or> is_digit c \<or> c = CHR ''_''"

definition is_dot :: "char \<Rightarrow> bool" where
  \<comment> \<open>what \<^verbatim>\<open>.\<close> matches without the \<^verbatim>\<open>s\<close> flag: anything but a line terminator\<close>
  "is_dot c \<longleftrightarrow> c \<noteq> LF \<and> c \<noteq> CR"

definition trim :: "string \<Rightarrow> string" where
  "trim s = rev (dropWhile is_space (rev (dropWhile is_space s)))"

definition startsWith :: "string \<Rightarrow> string \<Rightarrow> bool" where
  "startsWith s p \<longleftrightarrow> take (length p) s = p"

definition endsWith :: "string \<Rightarrow> string \<Rightarrow> bool" where
  "endsWith s p \<longleftrightarrow> length p \<le> length s \<and> drop (length s - length p) s = p"

definition includesChar :: "string \<Rightarrow> char \<Rightarrow> bool" where
  "includesChar s c \<longleftrightarrow> c \<in> set s"

fun split_on :: "char \<Rightarrow> string \<Rightarrow> string list" where
  \<comment> \<open>\<^verbatim>\<open>s.split(c)\<close> for a one-character separator: never empty\<close>
  "split_on c [] = [[]]"
| "split_on c (x # xs) =
     (if x = c then [] # split_on c xs
      else (case split_on c xs of [] \<Rightarrow> [[x]] | y # ys \<Rightarrow> (x # y) # ys))"

definition replaceAll :: "char \<Rightarrow> string \<Rightarrow> string \<Rightarrow> string" where
  \<comment> \<open>\<^verbatim>\<open>s.replace(/c/g, rep)\<close> for a one-character pattern\<close>
  "replaceAll c rep s = concat (map (\<lambda>x. if x = c then rep else [x]) s)"

section \<open>Values and errors\<close>

text \<open>
  A number of the program is an IEEE-754 double. The finite ones are kept by their exact
  rational value; negative zero, which the decoder folds away, is a value of its own.
\<close>

datatype jsnum = Fin rat | NegZero | PosInf | NegInf | NaN

datatype ToonValue =
    TNull
  | TBool bool
  | TNumber jsnum
  | TString string
  | TArray "ToonValue list"
  | TObject "(string \<times> ToonValue) list"

text \<open>A declared count is what \<^verbatim>\<open>parseInt\<close> returned: \<open>None\<close> is NaN.\<close>

type_synonym count = "int option"

datatype jstype = ArrayT | ObjectT | PrimitiveT

datatype message =
    TabInIndentation
  | InvalidIndentation int nat
  | PathConflictMerge jstype jstype
  | PathConflictNested
  | MultiplePrimitivesAtRoot
  | UnterminatedString
  | InvalidArrayKey
  | InvalidInlineArrayFormat
  | ArrayCountMismatch count nat
  | InvalidTabularKey
  | InvalidTabularHeader
  | BlankLineInArray
  | ExpectedRows count nat
  | RowLength nat nat
  | TabularLengthMismatch count nat
  | TabularExtraRows count
  | InvalidRootArrayFormat
  | ArrayLengthMismatch count nat
  | InvalidArrayHeader
  | InvalidArrayHeaderFormat
  | MissingColon

text \<open>
  What a call can throw. \<open>ToonDecodeError m l\<close> is the decoder's own error with its
  \<^verbatim>\<open>line\<close> field; \<open>InvalidEscape c l\<close> is the plain \<^verbatim>\<open>Error\<close> of
  \<^verbatim>\<open>unescapeString\<close>, whose text names the character and the line; \<open>TypeError\<close> is
  the runtime's error on a property read of \<^verbatim>\<open>undefined\<close> or \<^verbatim>\<open>null\<close>.
  \<open>PrototypeAccess\<close> and \<open>FuelExhausted\<close> are not thrown by the program: the first marks
  a run that replaces a prototype or reaches into \<^verbatim>\<open>Object.prototype\<close> through the
  inherited \<^verbatim>\<open>__proto__\<close> (from there on the outcome depends on shared prototype
  objects, which are not modelled), the second a run that needs more nested calls than the
  budget given to the parser.
\<close>

datatype error =
    ToonDecodeError message nat
  | InvalidEscape char nat
  | TypeError
  | PrototypeAccess
  | FuelExhausted

type_synonym 'a result = "error + 'a"

definition bind :: "'a result \<Rightarrow> ('a \<Rightarrow> 'b result) \<Rightarrow> 'b result" where
  "bind m f = (case m of Inl e \<Rightarrow> Inl e | Inr x \<Rightarrow> f x)"

section \<open>Escaping and unescaping\<close>

definition escapeString :: "string \<Rightarrow> string" where
  "escapeString str =
     replaceAll TAB [BSL, CHR ''t'']
       (replaceAll CR [BSL, CHR ''r'']
         (replaceAll LF [BSL, CHR ''n'']
           (replaceAll DQ [BSL, DQ]
             (replaceAll BSL [BSL, BSL] str))))"

text \<open>
  The loop of \<^verbatim>\<open>unescapeString\<close>: \<open>rest\<close> is the text from index \<^verbatim>\<open>i\<close> on,
  \<open>acc\<close> is \<^verbatim>\<open>result\<close>. The second argument of \<^verbatim>\<open>unescapeString\<close> is optional.
\<close>

fun unescape_loop :: "string \<Rightarrow> string \<Rightarrow> nat option \<Rightarrow> string result" where
  "unescape_loop [] acc lineIndex = Inr acc"
| "unescape_loop [c] acc lineIndex = Inr (acc @ [c])"
| "unescape_loop (c # next # rest) acc lineIndex =
     (if c = BSL then
        (if next = CHR ''n'' then unescape_loop rest (acc @ [LF]) lineIndex
         else if next = CHR ''r'' then unescape_loop rest (acc @ [CR]) lineIndex
         else if next = CHR ''t'' then unescape_loop rest (acc @ [TAB]) lineIndex
         else if next = DQ then unescape_loop rest (acc @ [DQ]) lineIndex
         else if next = BSL then unescape_loop rest (acc @ [BSL]) lineIndex
         else (case lineIndex of
                 Some l \<Rightarrow> Inl (InvalidEscape next (l + 1))
               | None \<Rightarrow> unescape_loop (next # rest) (acc @ [c]) lineIndex))
      else unescape_loop (next # rest) (acc @ [c]) lineIndex)"

definition unescapeString :: "string \<Rightarrow> nat option \<Rightarrow> string result" where
  "unescapeString str lineIndex = unescape_loop str [] lineIndex"

definition parseString :: "string \<Rightarrow> nat option \<Rightarrow> string result" where
  "parseString str lineIndex =
     (let trimmed = trim str in
      if startsWith trimmed [DQ] \<and> endsWith trimmed [DQ]
      then unescapeString (take (length trimmed - 2) (drop 1 trimmed)) lineIndex
      else Inr trimmed)"

section \<open>Numbers\<close>

text \<open>
  The number pattern \<^verbatim>\<open>/^-?\d+(\.\d+)?([eE][+-]?\d+)?$/\<close>, piece by piece. Each piece
  returns what it consumed and the rest. The quantifiers are greedy, and no shorter match of
  a piece lets the whole pattern succeed: a digit run is followed by a non-digit, and a
  \<^verbatim>\<open>.\<close> or \<^verbatim>\<open>e\<close> that an optional group leaves behind cannot be matched by
  anything after it. So the scan is deterministic.
\<close>

definition opt_minus :: "string \<Rightarrow> bool \<times> string" where
  \<comment> \<open>\<^verbatim>\<open>-?\<close>\<close>
  "opt_minus s = (case s of [] \<Rightarrow> (False, s)
                  | c # r \<Rightarrow> if c = CHR ''-'' then (True, r) else (False, s))"

definition digits1 :: "string \<Rightarrow> (string \<times> string) option" where
  \<comment> \<open>\<^verbatim>\<open>\d+\<close>\<close>
  "digits1 s = (let d = takeWhile is_digit s
                in if d = [] then None else Some (d, dropWhile is_digit s))"

definition opt_fraction :: "string \<Rightarrow> string option \<times> string" where
  \<comment> \<open>\<^verbatim>\<open>(\.\d+)?\<close>\<close>
  "opt_fraction s =
     (case s of [] \<Rightarrow> (None, s)
      | c # r \<Rightarrow>
          if c = CHR ''.'' then
            (case digits1 r of None \<Rightarrow> (None, s) | Some (d, r') \<Rightarrow> (Some d, r'))
          else (None, s))"

definition opt_sign :: "string \<Rightarrow> bool \<times> string" where
  \<comment> \<open>\<^verbatim>\<open>[+-]?\<close>\<close>
  "opt_sign s = (case s of [] \<Rightarrow> (False, s)
                 | c # r \<Rightarrow> if c = CHR ''+'' then (False, r)
                           else if c = CHR ''-'' then (True, r) else (False, s))"

definition opt_exponent :: "string \<Rightarrow> (bool \<times> string) option \<times> string" where
  \<comment> \<open>\<^verbatim>\<open>([eE][+-]?\d+)?\<close>\<close>
  "opt_exponent s =
     (case s of [] \<Rightarrow> (None, s)
      | c # r \<Rightarrow>
          if c = CHR ''e'' \<or> c = CHR ''E'' then
            (let (neg, r1) = opt_sign r
             in case digits1 r1 of None \<Rightarrow> (None, s) | Some (d, r2) \<Rightarrow> (Some (neg, d), r2))
          else (None, s))"

text \<open>The parts of a matching lexeme: sign, integer digits, fraction digits, exponent.\<close>

type_synonym number_parts = "bool \<times> string \<times> string option \<times> (bool \<times> string) option"

definition match_number :: "string \<Rightarrow> number_parts option" where
  "match_number s =
     (let (neg, s1) = opt_minus s
      in case digits1 s1 of None \<Rightarrow> None
         | Some (ip, s2) \<Rightarrow>
             (let (fp, s3) = opt_fraction s2; (ex, s4) = opt_exponent s3
              in if s4 = [] then Some (neg, ip, fp, ex) else None))"

definition is_number_lexeme :: "string \<Rightarrow> bool" where
  \<comment> \<open>\<^verbatim>\<open>/^-?\d+(\.\d+)?([eE][+-]?\d+)?$/.test(s)\<close>; with \<^verbatim>\<open>e\<close> and the \<^verbatim>\<open>i\<close> flag
      (the form in \<^verbatim>\<open>needsQuoting\<close>) the pattern accepts the same strings\<close>
  "is_number_lexeme s \<longleftrightarrow> match_number s \<noteq> None"

definition has_leading_zero :: "string \<Rightarrow> bool" where
  \<comment> \<open>\<^verbatim>\<open>/^-?0\d/.test(s)\<close>\<close>
  "has_leading_zero s =
     (case snd (opt_minus s) of a # b # _ \<Rightarrow> a = CHR ''0'' \<and> is_digit b | _ \<Rightarrow> False)"

definition digit_value :: "char \<Rightarrow> int" where
  "digit_value c = int (code_unit c) - 48"

definition int_of_digits :: "string \<Rightarrow> int" where
  "int_of_digits ds = foldl (\<lambda>a c. 10 * a + digit_value c) 0 ds"

text \<open>
  Rounding a positive rational \<open>num / den\<close> to the nearest double, ties to even: \<open>e\<close> is
  the binary exponent of the quotient, \<open>s\<close> the exponent of the last place (never below
  that of the subnormals), \<open>m\<close> the rounded significand.
\<close>

definition round_half_even :: "int \<Rightarrow> int \<Rightarrow> int" where
  "round_half_even a b =
     (let f = a div b; r = a mod b
      in if 2 * r < b then f else if b < 2 * r then f + 1
         else if even f then f else f + 1)"

definition binary_exponent :: "int \<Rightarrow> int \<Rightarrow> int" where
  "binary_exponent num den =
     (let k = bitlen num - bitlen den
      in if (if 0 \<le> k then den * 2 ^ nat k \<le> num else den \<le> num * 2 ^ nat (- k))
         then k else k - 1)"

definition signed :: "bool \<Rightarrow> rat \<Rightarrow> rat" where
  "signed neg q = (if neg then - q else q)"

definition round_double :: "bool \<Rightarrow> int \<Rightarrow> int \<Rightarrow> jsnum" where
  "round_double neg num den =
     (let s = max (binary_exponent num den) (- 1022) - 52;
          m = (if 0 \<le> s then round_half_even num (den * 2 ^ nat s)
               else round_half_even (num * 2 ^ nat (- s)) den)
      in if m = 0 then (if neg then NegZero else Fin 0)
         else if 971 < s \<or> (s = 971 \<and> 2 ^ 53 \<le> m) then (if neg then NegInf else PosInf)
         else if 0 \<le> s then Fin (signed neg (of_int (m * 2 ^ nat s)))
         else Fin (signed neg (of_int m / of_int (2 ^ nat (- s)))))"

definition decimal_to_double :: "number_parts \<Rightarrow> jsnum" where
  "decimal_to_double p =
     (case p of (neg, ip, fp, ex) \<Rightarrow>
        (let frac = (case fp of None \<Rightarrow> [] | Some d \<Rightarrow> d);
             n = int_of_digits (ip @ frac);
             e10 = (case ex of None \<Rightarrow> 0
                    | Some (eneg, d) \<Rightarrow> if eneg then - int_of_digits d else int_of_digits d)
                   - int (length frac)
         in if n = 0 then (if neg then NegZero else Fin 0)
            else if 0 \<le> e10 then round_double neg (n * 10 ^ nat e10) 1
            else round_double neg n (10 ^ nat (- e10))))"

definition js_Number :: "string \<Rightarrow> jsnum" where
  \<comment> \<open>\<^verbatim>\<open>Number(s)\<close> on a decimal literal, the only kind of argument the decoder passes\<close>
  "js_Number s = (case match_number s of None \<Rightarrow> NaN | Some p \<Rightarrow> decimal_to_double p)"

section \<open>Primitives\<close>

definition parsePrimitive :: "string \<Rightarrow> nat \<Rightarrow> ToonValue result" where
  "parsePrimitive str lineIndex =
     (let trimmed = trim str in
      if startsWith trimmed [DQ] then
        (if \<not> endsWith trimmed [DQ] \<or> length trimmed < 2
         then Inl (ToonDecodeError UnterminatedString (lineIndex + 1))
         else bind (parseString trimmed (Some lineIndex)) (\<lambda>s. Inr (TString s)))
      else if trimmed = ''true'' then Inr (TBool True)
      else if trimmed = ''false'' then Inr (TBool False)
      else if trimmed = ''null'' then Inr TNull
      else if is_number_lexeme trimmed then
        (if has_leading_zero trimmed then Inr (TString trimmed)
         else (let num = js_Number trimmed
               in Inr (TNumber (if num = NegZero then Fin 0 else num))))
      else Inr (TString trimmed))"

section \<open>The quoting predicate\<close>

datatype delimiter = Comma | TabDelim | Pipe

definition delimiter_char :: "delimiter \<Rightarrow> char" where
  "delimiter_char d = (case d of Comma \<Rightarrow> CHR '','' | TabDelim \<Rightarrow> TAB | Pipe \<Rightarrow> CHR ''|'')"

definition safe_char :: "delimiter \<Rightarrow> char \<Rightarrow> bool" where
  \<comment> \<open>the class of the safe pattern: word characters, white space, every code unit from
      0x80 on, and the comma when it is not the delimiter\<close>
  "safe_char d c \<longleftrightarrow> is_word c \<or> is_space c \<or> 128 \<le> code_unit c
     \<or> (d \<noteq> Comma \<and> c = CHR '','')"

definition needsQuoting :: "string \<Rightarrow> delimiter \<Rightarrow> bool" where
  "needsQuoting str d =
     (if length str = 0 then True
      else if str = ''true'' \<or> str = ''false'' \<or> str = ''null'' then True
      else if is_number_lexeme str then True
      else if (case str of a # b # _ \<Rightarrow> a = CHR ''0'' \<and> is_digit b | _ \<Rightarrow> False) then True
      else if (case str of a # _ \<Rightarrow> a \<in> {CHR ''['', CHR '']'', CHR ''{'', CHR ''}''} | _ \<Rightarrow> False)
              \<or> includesChar str (CHR ''['') \<or> includesChar str (CHR ''{'') then True
      else if str = ''-'' \<or> (case str of a # b # _ \<Rightarrow> a = CHR ''-'' \<and> is_space b | _ \<Rightarrow> False)
        then True
      else if \<exists>c\<in>set str. c \<in> {LF, CR, TAB, BSL, DQ} then True
      else if str \<noteq> [] \<and> (\<forall>c\<in>set str. is_space c) then True
      else if str \<noteq> trim str then True
      else \<not> (str \<noteq> [] \<and> (\<forall>c\<in>set str. safe_char d c)))"

section \<open>Objects\<close>

text \<open>
  An object of the program is a plain JavaScript object: its own properties, in the order
  the runtime enumerates them (array-index keys first, ascending; then the other keys in
  the order they were created). Every such object inherits from \<^verbatim>\<open>Object.prototype\<close>.
\<close>

type_synonym obj = "(string \<times> ToonValue) list"

definition array_index :: "string \<Rightarrow> int option" where
  \<comment> \<open>a canonical numeric key below \<open>2^32 - 1\<close>\<close>
  "array_index k =
     (if k \<noteq> [] \<and> (\<forall>c\<in>set k. is_digit c) \<and> (k = ''0'' \<or> hd k \<noteq> CHR ''0'')
         \<and> int_of_digits k < 4294967295
      then Some (int_of_digits k) else None)"

fun obj_insert :: "string \<Rightarrow> ToonValue \<Rightarrow> obj \<Rightarrow> obj" where
  \<comment> \<open>a new own property, placed where enumeration will find it\<close>
  "obj_insert k v [] = [(k, v)]"
| "obj_insert k v ((k', v') # es) =
     (case array_index k of
        None \<Rightarrow> (k', v') # obj_insert k v es
      | Some i \<Rightarrow>
          (case array_index k' of
             None \<Rightarrow> (k, v) # (k', v') # es
           | Some j \<Rightarrow> if j < i then (k', v') # obj_insert k v es
                       else (k, v) # (k', v') # es))"

definition obj_define :: "obj \<Rightarrow> string \<Rightarrow> ToonValue \<Rightarrow> obj" where
  \<comment> \<open>create or overwrite an own property; an existing one keeps its place\<close>
  "obj_define es k v =
     (if k \<in> fst ` set es then map (\<lambda>(k', v'). if k' = k then (k', v) else (k', v')) es
      else obj_insert k v es)"

definition obj_assign :: "obj \<Rightarrow> string \<Rightarrow> ToonValue \<Rightarrow> obj result" where
  \<comment> \<open>\<^verbatim>\<open>obj[k] = v\<close>. The key \<^verbatim>\<open>__proto__\<close> is the inherited accessor: assigning a
      string, number or boolean to it does nothing, assigning an object or \<^verbatim>\<open>null\<close>
      replaces the prototype.\<close>
  "obj_assign es k v =
     (if k = ''__proto__'' then
        (case v of TNull \<Rightarrow> Inl PrototypeAccess | TArray _ \<Rightarrow> Inl PrototypeAccess
         | TObject _ \<Rightarrow> Inl PrototypeAccess | _ \<Rightarrow> Inr es)
      else Inr (obj_define es k v))"

datatype property = Undefined | Own ToonValue | TheObjectPrototype | InheritedFunction

definition inherited_functions :: "string list" where
  "inherited_functions =
     [''constructor'', ''hasOwnProperty'', ''isPrototypeOf'', ''propertyIsEnumerable'',
      ''toLocaleString'', ''toString'', ''valueOf'', ''__defineGetter__'',
      ''__defineSetter__'', ''__lookupGetter__'', ''__lookupSetter__'']"

definition obj_get :: "obj \<Rightarrow> string \<Rightarrow> property" where
  \<comment> \<open>\<^verbatim>\<open>obj[k]\<close>: own properties first, then what \<^verbatim>\<open>Object.prototype\<close> provides\<close>
  "obj_get es k =
     (case map_of es k of
        Some v \<Rightarrow> Own v
      | None \<Rightarrow> if k = ''__proto__'' then TheObjectPrototype
                else if k \<in> set inherited_functions then InheritedFunction
                else Undefined)"

definition obj_spread :: "obj \<Rightarrow> obj \<Rightarrow> obj" where
  \<comment> \<open>\<^verbatim>\<open>{...a, ...b}\<close>\<close>
  "obj_spread a b = foldl (\<lambda>acc (k, v). obj_define acc k v) [] (a @ b)"

section \<open>Line-level helpers of the decoder\<close>

record DecodeOptions =
  strict :: "bool option"
  indent :: "int option"
  expandSafe :: "bool option"

text \<open>
  The field \<open>expandSafe\<close> stands for \<^verbatim>\<open>expandPaths\<close>, whose values are
  \<^verbatim>\<open>'off'\<close> and \<^verbatim>\<open>'safe'\<close>: \<open>Some True\<close> is \<^verbatim>\<open>'safe'\<close>, \<open>Some False\<close> is
  \<^verbatim>\<open>'off'\<close>, \<open>None\<close> is an absent field, as for the other two.
\<close>

definition is_strict :: "DecodeOptions \<Rightarrow> bool" where
  "is_strict options \<longleftrightarrow> strict options = Some True"

definition getIndentLevel :: "string \<Rightarrow> nat" where
  "getIndentLevel line = length (takeWhile is_space line)"

definition detectDelimiter :: "string \<Rightarrow> delimiter" where
  "detectDelimiter bracketContent =
     (if includesChar bracketContent TAB then TabDelim
      else if includesChar bracketContent (CHR ''|'') then Pipe
      else Comma)"

definition parseInt :: "string \<Rightarrow> count" where
  \<comment> \<open>\<^verbatim>\<open>parseInt(s, 10)\<close>: leading white space, a sign, then the longest run of digits. The
      result is kept exact (the runtime rounds it to a double, which no comparison with an
      array length can tell apart).\<close>
  "parseInt s =
     (let t = dropWhile is_space s;
          (neg, u) = opt_sign t;
          d = takeWhile is_digit u
      in if d = [] then None
         else Some (if neg then - int_of_digits d else int_of_digits d))"

definition declaredCount :: "string \<Rightarrow> count" where
  \<comment> \<open>\<^verbatim>\<open>parseInt(bracketContent.replace(/[\t|]/g, ''), 10)\<close>\<close>
  "declaredCount bracketContent =
     parseInt (filter (\<lambda>c. c \<noteq> TAB \<and> c \<noteq> CHR ''|'') bracketContent)"

definition count_above :: "count \<Rightarrow> nat \<Rightarrow> bool" where
  \<comment> \<open>\<^verbatim>\<open>n < count\<close>, false when the count is NaN\<close>
  "count_above c n = (case c of None \<Rightarrow> False | Some k \<Rightarrow> int n < k)"

definition count_differs :: "count \<Rightarrow> nat \<Rightarrow> bool" where
  \<comment> \<open>\<^verbatim>\<open>n !== count\<close>, true when the count is NaN\<close>
  "count_differs c n = (case c of None \<Rightarrow> True | Some k \<Rightarrow> int n \<noteq> k)"

fun split_loop :: "char \<Rightarrow> string \<Rightarrow> string list \<Rightarrow> string \<Rightarrow> bool \<Rightarrow> bool \<Rightarrow> string list" where
  "split_loop d [] vals current inQuotes escaped = vals @ [trim current]"
| "split_loop d (c # rest) vals current inQuotes escaped =
     (if escaped then split_loop d rest vals (current @ [c]) inQuotes False
      else if c = BSL then split_loop d rest vals (current @ [c]) inQuotes True
      else if c = DQ then split_loop d rest vals (current @ [c]) (\<not> inQuotes) escaped
      else if c = d \<and> \<not> inQuotes then split_loop d rest (vals @ [trim current]) [] inQuotes escaped
      else split_loop d rest vals (current @ [c]) inQuotes escaped)"

definition splitByDelimiter :: "string \<Rightarrow> delimiter \<Rightarrow> string list" where
  "splitByDelimiter str d = split_loop (delimiter_char d) str [] [] False False"

definition parseRow :: "string \<Rightarrow> delimiter \<Rightarrow> string list" where
  "parseRow line d = splitByDelimiter (trim line) d"

subsection \<open>Keys\<close>

fun quoted_key_loop :: "string \<Rightarrow> bool \<Rightarrow> string \<Rightarrow> (string \<times> string) option" where
  \<comment> \<open>the scan of a quoted key from index 1: the raw key and the text behind the closing
      quote, or nothing when the quote is not closed\<close>
  "quoted_key_loop [] escaped key = None"
| "quoted_key_loop (c # rest) escaped key =
     (if escaped then quoted_key_loop rest False (key @ [BSL, c])
      else if c = BSL then quoted_key_loop rest True key
      else if c = DQ then Some (key, rest)
      else quoted_key_loop rest escaped (key @ [c]))"

definition is_key_char :: "char \<Rightarrow> bool" where
  \<comment> \<open>the class \<^verbatim>\<open>[\w.-]\<close>\<close>
  "is_key_char c \<longleftrightarrow> is_word c \<or> c = CHR ''.'' \<or> c = CHR ''-''"

text \<open>
  \<^verbatim>\<open>parseKey\<close> returns key, rest and the was-quoted flag, or \<^verbatim>\<open>null\<close> (\<open>None\<close>). The
  unquoted branch is the pattern \<^verbatim>\<open>/^([\w.-]+?)(\[.*|:\s*.*|$)/\<close>: the lazy key stops at
  the first position where the second group matches, which is the end of the run of key
  characters, and the second group takes what \<^verbatim>\<open>.\<close> can reach.
\<close>

type_synonym key_result = "string \<times> string \<times> bool"

definition parseKey :: "string \<Rightarrow> key_result option result" where
  "parseKey str =
     (let trimmed = trim str in
      if startsWith trimmed [DQ] then
        (case quoted_key_loop (drop 1 trimmed) False [] of
           None \<Rightarrow> Inr None
         | Some (raw, rest) \<Rightarrow>
             bind (unescapeString raw (Some 0)) (\<lambda>key. Inr (Some (key, rest, True))))
      else
        (let key = takeWhile is_key_char trimmed; r = dropWhile is_key_char trimmed
         in if key = [] then Inr None
            else (case r of
                    [] \<Rightarrow> Inr (Some (key, [], False))
                  | c # t \<Rightarrow>
                      if c = CHR ''['' then Inr (Some (key, c # takeWhile is_dot t, False))
                      else if c = CHR '':'' then
                        Inr (Some (key, c # takeWhile is_space t
                                         @ takeWhile is_dot (dropWhile is_space t), False))
                      else Inr None)))"

subsection \<open>The header patterns\<close>

definition match_bracket :: "string \<Rightarrow> (string \<times> string) option" where
  \<comment> \<open>\<^verbatim>\<open>\[([^\]]+)\]\<close> at the start: the bracket content and the text behind\<close>
  "match_bracket s =
     (case s of [] \<Rightarrow> None
      | c # r \<Rightarrow>
          if c = CHR ''['' then
            (let b = takeWhile (\<lambda>x. x \<noteq> CHR '']'') r; r' = dropWhile (\<lambda>x. x \<noteq> CHR '']'') r
             in if b = [] \<or> r' = [] then None else Some (b, tl r'))
          else None)"

definition match_braces :: "string \<Rightarrow> (string \<times> string) option" where
  \<comment> \<open>\<^verbatim>\<open>\{([^}]+)\}\<close> at the start\<close>
  "match_braces s =
     (case s of [] \<Rightarrow> None
      | c # r \<Rightarrow>
          if c = CHR ''{'' then
            (let b = takeWhile (\<lambda>x. x \<noteq> CHR ''}'') r; r' = dropWhile (\<lambda>x. x \<noteq> CHR ''}'') r
             in if b = [] \<or> r' = [] then None else Some (b, tl r'))
          else None)"

definition match_colon :: "string \<Rightarrow> string option" where
  \<comment> \<open>\<^verbatim>\<open>/^:\s*(.*)$/\<close>: the captured value\<close>
  "match_colon s =
     (case s of [] \<Rightarrow> None
      | c # t \<Rightarrow>
          if c = CHR '':'' then
            (let v = dropWhile is_space t in if \<forall>x\<in>set v. is_dot x then Some v else None)
          else None)"

definition match_colon_end :: "string \<Rightarrow> bool" where
  \<comment> \<open>\<^verbatim>\<open>:\s*$\<close>\<close>
  "match_colon_end s = (case s of [] \<Rightarrow> False | c # t \<Rightarrow> c = CHR '':'' \<and> (\<forall>x\<in>set t. is_space x))"

definition match_colon_some :: "string \<Rightarrow> string option" where
  \<comment> \<open>\<^verbatim>\<open>:\s*(.+)$\<close>: the white space gives one character back when nothing else is left\<close>
  "match_colon_some s =
     (case s of [] \<Rightarrow> None
      | c # t \<Rightarrow>
          if c = CHR '':'' then
            (let v = dropWhile is_space t
             in if v \<noteq> [] then (if \<forall>x\<in>set v. is_dot x then Some v else None)
                else if t \<noteq> [] \<and> is_dot (last t) then Some [last t] else None)
          else None)"

fun match_quoted :: "string \<Rightarrow> string option" where
  \<comment> \<open>\<^verbatim>\<open>([^"\\]|\\.)*"\<close> behind an opening quote: the text behind the closing quote\<close>
  "match_quoted [] = None"
| "match_quoted (c # r) =
     (if c = DQ then Some r
      else if c = BSL then
        (case r of [] \<Rightarrow> None | d # r' \<Rightarrow> if is_dot d then match_quoted r' else None)
      else match_quoted r)"

definition match_key_token :: "(char \<Rightarrow> bool) \<Rightarrow> string \<Rightarrow> string option" where
  \<comment> \<open>\<^verbatim>\<open>("([^"\\]|\\.)*"|C+)\<close> at the start, for a character class \<open>C\<close>: the text behind\<close>
  "match_key_token cls s =
     (case s of [] \<Rightarrow> None
      | c # r \<Rightarrow>
          if c = DQ then match_quoted r
          else if takeWhile cls s = [] then None else Some (dropWhile cls s))"

definition is_inline_array_line :: "(char \<Rightarrow> bool) \<Rightarrow> string \<Rightarrow> bool" where
  \<comment> \<open>\<^verbatim>\<open>/^("([^"\\]|\\.)*"|C+)\[[^\]]+\]:\s*\S+/\<close>\<close>
  "is_inline_array_line cls s =
     (case match_key_token cls s of None \<Rightarrow> False
      | Some r \<Rightarrow>
          (case match_bracket r of None \<Rightarrow> False
           | Some (b, r') \<Rightarrow>
               (case r' of [] \<Rightarrow> False
                | c # t \<Rightarrow> c = CHR '':'' \<and> dropWhile is_space t \<noteq> [])))"

definition is_tabular_line :: "(char \<Rightarrow> bool) \<Rightarrow> string \<Rightarrow> bool" where
  \<comment> \<open>\<^verbatim>\<open>/^("([^"\\]|\\.)*"|C+)\[[^\]]+\]\{[^}]+\}:\s*$/\<close>\<close>
  "is_tabular_line cls s =
     (case match_key_token cls s of None \<Rightarrow> False
      | Some r \<Rightarrow>
          (case match_bracket r of None \<Rightarrow> False
           | Some (b, r') \<Rightarrow>
               (case match_braces r' of None \<Rightarrow> False
                | Some (f, r'') \<Rightarrow> match_colon_end r'')))"

definition is_multiline_array_line :: "(char \<Rightarrow> bool) \<Rightarrow> string \<Rightarrow> bool" where
  \<comment> \<open>\<^verbatim>\<open>/^("([^"\\]|\\.)*"|C+)\[[^\]]+\]:\s*$/\<close>\<close>
  "is_multiline_array_line cls s =
     (case match_key_token cls s of None \<Rightarrow> False
      | Some r \<Rightarrow>
          (case match_bracket r of None \<Rightarrow> False
           | Some (b, r') \<Rightarrow> match_colon_end r'))"

definition is_array_item :: "string \<Rightarrow> bool" where
  \<comment> \<open>\<^verbatim>\<open>/^\[[^\]]+\]:/\<close>\<close>
  "is_array_item s =
     (case match_bracket s of None \<Rightarrow> False
      | Some (b, r) \<Rightarrow> (case r of [] \<Rightarrow> False | c # t \<Rightarrow> c = CHR '':''))"

definition match_inline_header :: "string \<Rightarrow> (string \<times> string) option" where
  \<comment> \<open>\<^verbatim>\<open>/^\[([^\]]+)\]:\s*(.*)$/\<close>: bracket content and value text\<close>
  "match_inline_header s =
     (case match_bracket s of None \<Rightarrow> None
      | Some (b, r) \<Rightarrow> (case match_colon r of None \<Rightarrow> None | Some v \<Rightarrow> Some (b, v)))"

definition match_root_inline :: "string \<Rightarrow> (string \<times> string) option" where
  \<comment> \<open>\<^verbatim>\<open>/^\[([^\]]+)\]:\s*(.+)$/\<close>\<close>
  "match_root_inline s =
     (case match_bracket s of None \<Rightarrow> None
      | Some (b, r) \<Rightarrow> (case match_colon_some r of None \<Rightarrow> None | Some v \<Rightarrow> Some (b, v)))"

definition match_tabular_header :: "string \<Rightarrow> (string \<times> string) option" where
  \<comment> \<open>\<^verbatim>\<open>/^\[([^\]]+)\]\{([^}]+)\}:\s*$/\<close>: bracket content and field list\<close>
  "match_tabular_header s =
     (case match_bracket s of None \<Rightarrow> None
      | Some (b, r) \<Rightarrow>
          (case match_braces r of None \<Rightarrow> None
           | Some (f, r') \<Rightarrow> if match_colon_end r' then Some (b, f) else None))"

definition match_multiline_header :: "string \<Rightarrow> string option" where
  \<comment> \<open>\<^verbatim>\<open>/^\[([^\]]+)\]:\s*$/\<close>: the bracket content\<close>
  "match_multiline_header s =
     (case match_bracket s of None \<Rightarrow> None
      | Some (b, r) \<Rightarrow> if match_colon_end r then Some b else None)"

section \<open>Arrays on one line and tables\<close>

record ParseResult =
  resultValue :: ToonValue
  linesConsumed :: nat
  keyMetadata :: "(string \<times> bool) list option"

text \<open>
  \<open>resultValue\<close> is the field \<^verbatim>\<open>value\<close>. The key metadata is the program's
  \<^verbatim>\<open>Map\<close> from keys to was-quoted flags, kept as an association list whose first
  entry for a key is the latest one; \<open>None\<close> is an absent field.
\<close>

fun map_result :: "('a \<Rightarrow> 'b result) \<Rightarrow> 'a list \<Rightarrow> 'b list result" where
  \<comment> \<open>\<^verbatim>\<open>xs.map(f)\<close> where \<^verbatim>\<open>f\<close> may throw\<close>
  "map_result f [] = Inr []"
| "map_result f (x # xs) =
     (case f x of Inl e \<Rightarrow> Inl e
      | Inr y \<Rightarrow> (case map_result f xs of Inl e \<Rightarrow> Inl e | Inr ys \<Rightarrow> Inr (y # ys)))"

definition parseInlineArray :: "string \<Rightarrow> nat \<Rightarrow> (string \<times> ToonValue list \<times> delimiter) result" where
  "parseInlineArray line lineIndex =
     bind (parseKey line) (\<lambda>keyResult.
       case keyResult of
         None \<Rightarrow> Inl (ToonDecodeError InvalidArrayKey lineIndex)
       | Some (key, rest, wq) \<Rightarrow>
           (case match_inline_header rest of
              None \<Rightarrow> Inl (ToonDecodeError InvalidInlineArrayFormat lineIndex)
            | Some (bracketContent, valueStr) \<Rightarrow>
                (let delimiter = detectDelimiter bracketContent;
                     count = declaredCount bracketContent
                 in if count = Some 0 then Inr (key, [], delimiter)
                    else
                      (let vals = splitByDelimiter valueStr delimiter
                       in if count_differs count (length vals)
                          then Inl (ToonDecodeError (ArrayCountMismatch count (length vals)) lineIndex)
                          else bind (map_result (\<lambda>v. parsePrimitive v lineIndex) vals)
                                 (\<lambda>parsed. Inr (key, parsed, delimiter))))))"

fun rowObject :: "string list \<Rightarrow> string list \<Rightarrow> nat \<Rightarrow> obj \<Rightarrow> obj result" where
  \<comment> \<open>the loop \<^verbatim>\<open>obj[keys[j]] = parsePrimitive(values[j], lineIndex)\<close>; it is only called
      with as many values as keys\<close>
  "rowObject [] vals lineIndex ob = Inr ob"
| "rowObject (k # keys) [] lineIndex ob = Inl TypeError"
| "rowObject (k # keys) (v # vals) lineIndex ob =
     (case parsePrimitive v lineIndex of Inl e \<Rightarrow> Inl e
      | Inr x \<Rightarrow> (case obj_assign ob k x of Inl e \<Rightarrow> Inl e
                 | Inr ob' \<Rightarrow> rowObject keys vals lineIndex ob'))"

function skipBlankRows :: "string list \<Rightarrow> DecodeOptions \<Rightarrow> nat \<Rightarrow> count \<Rightarrow> nat \<Rightarrow> nat result" where
  "skipBlankRows lines options i count lineIndex =
     (if lineIndex < length lines \<and> trim (lines ! lineIndex) = [] then
        (if is_strict options \<and> 0 < i \<and> count_above count i
         then Inl (ToonDecodeError BlankLineInArray (lineIndex + 1))
         else skipBlankRows lines options i count (lineIndex + 1))
      else Inr lineIndex)"
  by pat_completeness auto
termination
  by (relation "measure (\<lambda>(lines, options, i, count, lineIndex). length lines - lineIndex)") auto

function tabularRows ::
  "string list \<Rightarrow> DecodeOptions \<Rightarrow> string list \<Rightarrow> delimiter \<Rightarrow> count \<Rightarrow> nat \<Rightarrow> ToonValue list
     \<Rightarrow> nat \<Rightarrow> (ToonValue list \<times> nat) result" where
  "tabularRows lines options keys d count i res lineIndex =
     (if count_above count i then
        (case skipBlankRows lines options i count lineIndex of
           Inl e \<Rightarrow> Inl e
         | Inr li \<Rightarrow>
             if length lines \<le> li then Inl (ToonDecodeError (ExpectedRows count i) li)
             else
               (let vals = parseRow (lines ! li) d
                in if length vals \<noteq> length keys
                   then Inl (ToonDecodeError (RowLength (length vals) (length keys)) li)
                   else (case rowObject keys vals li [] of
                           Inl e \<Rightarrow> Inl e
                         | Inr ob \<Rightarrow>
                             tabularRows lines options keys d count (i + 1)
                               (res @ [TObject ob]) (li + 1))))
      else Inr (res, lineIndex))"
  by pat_completeness auto
termination
  by (relation "measure (\<lambda>(lines, options, keys, d, count, i, res, lineIndex).
        case count of None \<Rightarrow> 0 | Some c \<Rightarrow> nat (c - int i))")
     (auto simp: count_above_def split: option.splits)

definition parseTabular :: "string \<Rightarrow> string list \<Rightarrow> nat \<Rightarrow> DecodeOptions \<Rightarrow> ParseResult result" where
  "parseTabular header lines startIndex options =
     bind (parseKey header) (\<lambda>keyResult.
       case keyResult of
         None \<Rightarrow> Inl (ToonDecodeError InvalidTabularKey startIndex)
       | Some (key, rest, wq) \<Rightarrow>
           (case match_tabular_header rest of
              None \<Rightarrow> Inl (ToonDecodeError InvalidTabularHeader startIndex)
            | Some (bracketContent, keysStr) \<Rightarrow>
                (let delimiter = detectDelimiter bracketContent;
                     count = declaredCount bracketContent
                 in bind (map_result (\<lambda>k. parseString k None) (splitByDelimiter keysStr delimiter))
                      (\<lambda>keys.
                         bind (tabularRows lines options keys delimiter count 0 [] (startIndex + 1))
                           (\<lambda>(res, lineIndex).
                              if count_differs count (length res)
                              then Inl (ToonDecodeError
                                          (TabularLengthMismatch count (length res)) startIndex)
                              else Inr \<lparr>resultValue = TArray res,
                                        linesConsumed = lineIndex - startIndex,
                                        keyMetadata = None\<rparr>)))))"

text \<open>
  The loop that reads a multi-line array of primitives, one per line; the program has it
  twice, in \<^verbatim>\<open>parseArray\<close> and in \<^verbatim>\<open>parseRootArray\<close>, with the same text.
\<close>

function primitiveLines ::
  "string list \<Rightarrow> DecodeOptions \<Rightarrow> count \<Rightarrow> nat \<Rightarrow> ToonValue list \<Rightarrow> nat
     \<Rightarrow> (ToonValue list \<times> nat) result" where
  "primitiveLines lines options count baseIndent res lineIndex =
     (if count_above count (length res) \<and> lineIndex < length lines then
        (let line = lines ! lineIndex in
         if trim line = [] then
           (if is_strict options \<and> 0 < length res \<and> count_above count (length res)
            then Inl (ToonDecodeError BlankLineInArray (lineIndex + 1))
            else primitiveLines lines options count baseIndent res (lineIndex + 1))
         else if getIndentLevel line < baseIndent then Inr (res, lineIndex)
         else (case parsePrimitive line lineIndex of
                 Inl e \<Rightarrow> Inl e
               | Inr v \<Rightarrow> primitiveLines lines options count baseIndent (res @ [v]) (lineIndex + 1)))
      else Inr (res, lineIndex))"
  by pat_completeness auto
termination
  by (relation "measure (\<lambda>(lines, options, count, baseIndent, res, lineIndex).
        length lines - lineIndex)") auto

definition primitiveArray :: "string list \<Rightarrow> nat \<Rightarrow> count \<Rightarrow> DecodeOptions \<Rightarrow> ParseResult result" where
  \<comment> \<open>the tail of both functions from \<^verbatim>\<open>// Regular primitive array\<close> on; reading the
      indentation of a line that does not exist is a \<^verbatim>\<open>TypeError\<close>\<close>
  "primitiveArray lines startIndex count options =
     (if length lines \<le> startIndex + 1 then Inl TypeError
      else bind (primitiveLines lines options count (getIndentLevel (lines ! (startIndex + 1)))
                   [] (startIndex + 1))
             (\<lambda>(res, lineIndex).
                Inr \<lparr>resultValue = TArray res, linesConsumed = lineIndex - startIndex,
                     keyMetadata = None\<rparr>))"

function rootTabularRows ::
  "string list \<Rightarrow> string list \<Rightarrow> delimiter \<Rightarrow> count \<Rightarrow> nat \<Rightarrow> ToonValue list \<Rightarrow> nat
     \<Rightarrow> (ToonValue list \<times> nat) result" where
  "rootTabularRows lines keys d count i res lineIndex =
     (if count_above count i then
        (if length lines \<le> lineIndex
         then Inl (ToonDecodeError (ExpectedRows count i) lineIndex)
         else
           (let vals = parseRow (lines ! lineIndex) d
            in if length vals \<noteq> length keys
               then Inl (ToonDecodeError (RowLength (length vals) (length keys)) lineIndex)
               else (case rowObject keys vals lineIndex [] of
                       Inl e \<Rightarrow> Inl e
                     | Inr ob \<Rightarrow>
                         rootTabularRows lines keys d count (i + 1)
                           (res @ [TObject ob]) (lineIndex + 1))))
      else Inr (res, lineIndex))"
  by pat_completeness auto
termination
  by (relation "measure (\<lambda>(lines, keys, d, count, i, res, lineIndex).
        case count of None \<Rightarrow> 0 | Some c \<Rightarrow> nat (c - int i))")
     (auto simp: count_above_def split: option.splits)

definition rootTabular ::
  "string \<Rightarrow> string \<Rightarrow> string list \<Rightarrow> nat \<Rightarrow> ParseResult result" where
  \<comment> \<open>the branch \<^verbatim>\<open>if (tabularMatch)\<close> of \<^verbatim>\<open>parseRootArray\<close>\<close>
  "rootTabular bracketContent keysStr lines startIndex =
     (let delimiter = detectDelimiter bracketContent;
          count = declaredCount bracketContent
      in bind (map_result (\<lambda>k. parseString k None) (splitByDelimiter keysStr delimiter))
           (\<lambda>keys.
              bind (rootTabularRows lines keys delimiter count 0 [] (startIndex + 1))
                (\<lambda>(res, lineIndex).
                   if lineIndex < length lines \<and> trim (lines ! lineIndex) \<noteq> []
                      \<and> 0 < getIndentLevel (lines ! lineIndex)
                   then Inl (ToonDecodeError (TabularExtraRows count) lineIndex)
                   else Inr \<lparr>resultValue = TArray res, linesConsumed = lineIndex - startIndex,
                             keyMetadata = None\<rparr>)))"

definition rootInline :: "string \<Rightarrow> string \<Rightarrow> nat \<Rightarrow> ParseResult result" where
  \<comment> \<open>the branch \<^verbatim>\<open>if (inlineMatch)\<close> of \<^verbatim>\<open>parseRootArray\<close>\<close>
  "rootInline bracketContent valueStr startIndex =
     (let delimiter = detectDelimiter bracketContent;
          count = declaredCount bracketContent
      in if count = Some 0
         then Inr \<lparr>resultValue = TArray [], linesConsumed = 1, keyMetadata = None\<rparr>
         else
           (let vals = splitByDelimiter valueStr delimiter
            in if count_differs count (length vals)
               then Inl (ToonDecodeError (ArrayCountMismatch count (length vals)) startIndex)
               else bind (map_result (\<lambda>v. parsePrimitive v startIndex) vals)
                      (\<lambda>parsed. Inr \<lparr>resultValue = TArray parsed, linesConsumed = 1,
                                       keyMetadata = None\<rparr>)))"

section \<open>The recursive descent\<close>

text \<open>
  The functions below call one another, and each loop advances by what a nested call
  reports as consumed. Their first argument is a budget of nested calls and loop rounds:
  every call and every round of a \<^verbatim>\<open>while\<close> loop passes on one less, and a call with
  budget \<open>0\<close> stops with \<open>FuelExhausted\<close>. The loop of \<^verbatim>\<open>parseLines\<close> is
  \<open>parseLinesLoop\<close>, the one of \<^verbatim>\<open>parseListFormat\<close> is \<open>parseListLoop\<close>; inside the
  latter, the first field of an object item is \<open>parseFirstField\<close> and the loop over its
  further fields is \<open>parseMoreFields\<close>. Both return the object and the next line index.
\<close>

definition finishLines :: "obj \<Rightarrow> (string \<times> bool) list \<Rightarrow> nat \<Rightarrow> nat \<Rightarrow> ParseResult" where
  \<comment> \<open>the section \<^verbatim>\<open>Return result\<close> of \<^verbatim>\<open>parseLines\<close>\<close>
  "finishLines res meta lineIndex startIndex =
     (if res = []
      then \<lparr>resultValue = TNull, linesConsumed = lineIndex - startIndex, keyMetadata = None\<rparr>
      else \<lparr>resultValue = TObject res, linesConsumed = lineIndex - startIndex,
            keyMetadata = Some meta\<rparr>)"

definition is_list_marker :: "string \<Rightarrow> bool" where
  \<comment> \<open>\<^verbatim>\<open>content.startsWith('- ') || content === '-'\<close>\<close>
  "is_list_marker content \<longleftrightarrow> startsWith content ''- '' \<or> content = ''-''"

definition parseLines_body ::
  "(string list \<Rightarrow> nat \<Rightarrow> DecodeOptions \<Rightarrow> nat \<Rightarrow> nat \<Rightarrow> obj
     \<Rightarrow> (string \<times> bool) list \<Rightarrow> ParseResult result) \<Rightarrow> string list \<Rightarrow> nat \<Rightarrow> DecodeOptions \<Rightarrow> ParseResult result" where
  "parseLines_body linesLoop lines startIndex options =
     (case find (\<lambda>l. trim l \<noteq> []) (drop startIndex lines) of
        None \<Rightarrow> Inr \<lparr>resultValue = TNull, linesConsumed = 0, keyMetadata = None\<rparr>
      | Some l \<Rightarrow> linesLoop lines startIndex options (getIndentLevel l) startIndex [] [])"

definition parseLinesLoop_body ::
  "(string list \<Rightarrow> nat \<Rightarrow> DecodeOptions \<Rightarrow> nat \<Rightarrow> nat \<Rightarrow> obj
     \<Rightarrow> (string \<times> bool) list \<Rightarrow> ParseResult result)
     \<Rightarrow> (string \<Rightarrow> string list \<Rightarrow> nat \<Rightarrow> DecodeOptions \<Rightarrow> ParseResult result)
     \<Rightarrow> (string list \<Rightarrow> nat \<Rightarrow> DecodeOptions \<Rightarrow> ParseResult result) \<Rightarrow> string list \<Rightarrow> nat \<Rightarrow> DecodeOptions \<Rightarrow> nat \<Rightarrow> nat \<Rightarrow> obj
     \<Rightarrow> (string \<times> bool) list \<Rightarrow> ParseResult result" where
  "parseLinesLoop_body linesLoop array nestedLines lines startIndex options baseIndent lineIndex res meta =
     (if \<not> lineIndex < length lines then Inr (finishLines res meta lineIndex startIndex)
      else if trim (lines ! lineIndex) = []
        then linesLoop lines startIndex options baseIndent (lineIndex + 1) res meta
      else if getIndentLevel (lines ! lineIndex) < baseIndent \<and> startIndex < lineIndex
        then Inr (finishLines res meta lineIndex startIndex)
      else if getIndentLevel (lines ! lineIndex) \<noteq> baseIndent
        then linesLoop lines startIndex options baseIndent (lineIndex + 1) res meta
      else if is_inline_array_line is_key_char (trim (lines ! lineIndex)) then
        (case parseInlineArray (trim (lines ! lineIndex)) lineIndex of
           Inl e \<Rightarrow> Inl e
         | Inr (key, vals, d) \<Rightarrow>
             (case parseKey (trim (lines ! lineIndex)) of
                Inl e \<Rightarrow> Inl e
              | Inr keyResult \<Rightarrow>
                  (case obj_assign res key (TArray vals) of
                     Inl e \<Rightarrow> Inl e
                   | Inr res' \<Rightarrow>
                       linesLoop lines startIndex options baseIndent (lineIndex + 1) res'
                         (case keyResult of None \<Rightarrow> meta
                          | Some (k, r, wq) \<Rightarrow> (key, wq) # meta))))
      else if is_tabular_line is_key_char (trim (lines ! lineIndex)) then
        (case parseTabular (trim (lines ! lineIndex)) lines lineIndex options of
           Inl e \<Rightarrow> Inl e
         | Inr parsed \<Rightarrow>
             (case parseKey (trim (lines ! lineIndex)) of
                Inl e \<Rightarrow> Inl e
              | Inr None \<Rightarrow>
                  linesLoop lines startIndex options baseIndent
                    (lineIndex + linesConsumed parsed) res meta
              | Inr (Some (key, r, wq)) \<Rightarrow>
                  (case obj_assign res key (resultValue parsed) of
                     Inl e \<Rightarrow> Inl e
                   | Inr res' \<Rightarrow>
                       linesLoop lines startIndex options baseIndent
                         (lineIndex + linesConsumed parsed) res' ((key, wq) # meta))))
      else if is_multiline_array_line is_key_char (trim (lines ! lineIndex)) then
        (case array (trim (lines ! lineIndex)) lines lineIndex options of
           Inl e \<Rightarrow> Inl e
         | Inr parsed \<Rightarrow>
             (case parseKey (trim (lines ! lineIndex)) of
                Inl e \<Rightarrow> Inl e
              | Inr None \<Rightarrow>
                  linesLoop lines startIndex options baseIndent
                    (lineIndex + linesConsumed parsed) res meta
              | Inr (Some (key, r, wq)) \<Rightarrow>
                  (case obj_assign res key (resultValue parsed) of
                     Inl e \<Rightarrow> Inl e
                   | Inr res' \<Rightarrow>
                       linesLoop lines startIndex options baseIndent
                         (lineIndex + linesConsumed parsed) res' ((key, wq) # meta))))
      else if includesChar (trim (lines ! lineIndex)) (CHR '':'') then
        (case parseKey (trim (lines ! lineIndex)) of
           Inl e \<Rightarrow> Inl e
         | Inr None \<Rightarrow>
             linesLoop lines startIndex options baseIndent (lineIndex + 1) res meta
         | Inr (Some (key, rest, wq)) \<Rightarrow>
             (case match_colon rest of
                None \<Rightarrow> Inl (ToonDecodeError MissingColon (lineIndex + 1))
              | Some v \<Rightarrow>
                  if trim v = [] then
                    (case nestedLines lines (lineIndex + 1) options of
                       Inl e \<Rightarrow> Inl e
                     | Inr nested \<Rightarrow>
                         (case obj_assign res key
                                 (if resultValue nested = TNull then TObject []
                                  else resultValue nested) of
                            Inl e \<Rightarrow> Inl e
                          | Inr res' \<Rightarrow>
                              linesLoop lines startIndex options baseIndent
                                (lineIndex + 1 + linesConsumed nested) res' ((key, wq) # meta)))
                  else
                    (case parsePrimitive (trim v) lineIndex of
                       Inl e \<Rightarrow> Inl e
                     | Inr x \<Rightarrow>
                         (case obj_assign res key x of
                            Inl e \<Rightarrow> Inl e
                          | Inr res' \<Rightarrow>
                              linesLoop lines startIndex options baseIndent
                                (lineIndex + 1) res' ((key, wq) # meta)))))
      else if is_strict options \<and> startIndex < lineIndex
        then Inl (ToonDecodeError MissingColon (lineIndex + 1))
      else linesLoop lines startIndex options baseIndent (lineIndex + 1) res meta)"

definition parseArray_body ::
  "(string list \<Rightarrow> nat \<Rightarrow> count \<Rightarrow> nat \<Rightarrow> DecodeOptions \<Rightarrow> ParseResult result) \<Rightarrow> string \<Rightarrow> string list \<Rightarrow> nat \<Rightarrow> DecodeOptions \<Rightarrow> ParseResult result" where
  "parseArray_body listFormat header lines startIndex options =
     (if includesChar header (CHR ''{'') then parseTabular header lines startIndex options
      else
        (case parseKey header of
           Inl e \<Rightarrow> Inl e
         | Inr None \<Rightarrow> Inl (ToonDecodeError InvalidArrayHeader startIndex)
         | Inr (Some (key, rest, wq)) \<Rightarrow>
             (case match_multiline_header rest of
                None \<Rightarrow> Inl (ToonDecodeError InvalidArrayHeaderFormat startIndex)
              | Some bracketContent \<Rightarrow>
                  if declaredCount bracketContent = Some 0
                  then Inr \<lparr>resultValue = TArray [], linesConsumed = 1, keyMetadata = None\<rparr>
                  else if startIndex + 1 < length lines
                          \<and> is_list_marker (trim (lines ! (startIndex + 1)))
                  then listFormat lines (startIndex + 1) (declaredCount bracketContent)
                         (getIndentLevel (lines ! (startIndex + 1))) options
                  else primitiveArray lines startIndex (declaredCount bracketContent) options)))"

definition parseListFormat_body ::
  "(string list \<Rightarrow> count \<Rightarrow> nat \<Rightarrow> DecodeOptions \<Rightarrow> ToonValue list \<Rightarrow> nat
     \<Rightarrow> (ToonValue list \<times> nat) result) \<Rightarrow> string list \<Rightarrow> nat \<Rightarrow> count \<Rightarrow> nat \<Rightarrow> DecodeOptions \<Rightarrow> ParseResult result" where
  "parseListFormat_body listLoop lines startIndex count baseIndent options =
     (case listLoop lines count baseIndent options [] startIndex of
        Inl e \<Rightarrow> Inl e
      | Inr (res, lineIndex) \<Rightarrow>
          if count_differs count (length res)
          then Inl (ToonDecodeError (ArrayLengthMismatch count (length res)) startIndex)
          else Inr \<lparr>resultValue = TArray res, linesConsumed = lineIndex - startIndex,
                    keyMetadata = None\<rparr>)"

definition parseListLoop_body ::
  "(string list \<Rightarrow> count \<Rightarrow> nat \<Rightarrow> DecodeOptions \<Rightarrow> ToonValue list \<Rightarrow> nat
     \<Rightarrow> (ToonValue list \<times> nat) result)
     \<Rightarrow> (string \<Rightarrow> string list \<Rightarrow> nat \<Rightarrow> DecodeOptions \<Rightarrow> ParseResult result)
     \<Rightarrow> (string \<Rightarrow> string list \<Rightarrow> nat \<Rightarrow> DecodeOptions
     \<Rightarrow> (obj \<times> nat) result)
     \<Rightarrow> (string list \<Rightarrow> nat \<Rightarrow> DecodeOptions \<Rightarrow> obj \<Rightarrow> nat
     \<Rightarrow> (obj \<times> nat) result) \<Rightarrow> string list \<Rightarrow> count \<Rightarrow> nat \<Rightarrow> DecodeOptions \<Rightarrow> ToonValue list \<Rightarrow> nat
     \<Rightarrow> (ToonValue list \<times> nat) result" where
  "parseListLoop_body listLoop rootArray firstField moreFields lines count baseIndent options res lineIndex =
     (if \<not> (count_above count (length res) \<and> lineIndex < length lines) then Inr (res, lineIndex)
      else if trim (lines ! lineIndex) = [] then
        (if is_strict options \<and> 0 < length res \<and> count_above count (length res)
         then Inl (ToonDecodeError BlankLineInArray (lineIndex + 1))
         else listLoop lines count baseIndent options res (lineIndex + 1))
      else if getIndentLevel (lines ! lineIndex) = baseIndent
              \<and> startsWith (trim (lines ! lineIndex)) ''- '' then
        (if trim (drop 2 (trim (lines ! lineIndex))) = []
         then listLoop lines count baseIndent options (res @ [TObject []]) (lineIndex + 1)
         else if is_array_item (trim (drop 2 (trim (lines ! lineIndex)))) then
           (case rootArray (trim (drop 2 (trim (lines ! lineIndex)))) lines lineIndex
                   options of
              Inl e \<Rightarrow> Inl e
            | Inr parsed \<Rightarrow>
                listLoop lines count baseIndent options (res @ [resultValue parsed])
                  (lineIndex + linesConsumed parsed))
         else if includesChar (trim (drop 2 (trim (lines ! lineIndex)))) (CHR '':'') then
           (case firstField (trim (drop 2 (trim (lines ! lineIndex)))) lines lineIndex
                   options of
              Inl e \<Rightarrow> Inl e
            | Inr (ob, li) \<Rightarrow>
                (case moreFields lines baseIndent options ob li of
                   Inl e \<Rightarrow> Inl e
                 | Inr (ob', li') \<Rightarrow>
                     listLoop lines count baseIndent options (res @ [TObject ob']) li'))
         else
           (case parsePrimitive (trim (drop 2 (trim (lines ! lineIndex)))) lineIndex of
              Inl e \<Rightarrow> Inl e
            | Inr v \<Rightarrow>
                listLoop lines count baseIndent options (res @ [v]) (lineIndex + 1)))
      else if getIndentLevel (lines ! lineIndex) = baseIndent \<and> trim (lines ! lineIndex) = ''-''
        then listLoop lines count baseIndent options (res @ [TObject []]) (lineIndex + 1)
      else listLoop lines count baseIndent options res (lineIndex + 1))"

definition parseFirstField_body ::
  "(string \<Rightarrow> string list \<Rightarrow> nat \<Rightarrow> DecodeOptions \<Rightarrow> ParseResult result)
     \<Rightarrow> (string list \<Rightarrow> nat \<Rightarrow> DecodeOptions \<Rightarrow> ParseResult result) \<Rightarrow> string \<Rightarrow> string list \<Rightarrow> nat \<Rightarrow> DecodeOptions
     \<Rightarrow> (obj \<times> nat) result" where
  "parseFirstField_body array nestedLines itemContent lines lineIndex options =
     (if is_inline_array_line is_word itemContent then
        (case parseInlineArray itemContent lineIndex of
           Inl e \<Rightarrow> Inl e
         | Inr (key, vals, d) \<Rightarrow>
             (case obj_assign [] key (TArray vals) of
                Inl e \<Rightarrow> Inl e
              | Inr ob \<Rightarrow> Inr (ob, lineIndex + 1)))
      else if is_tabular_line is_word itemContent then
        (case parseKey itemContent of
           Inl e \<Rightarrow> Inl e
         | Inr None \<Rightarrow> Inr ([], lineIndex + 1)
         | Inr (Some (key, r, wq)) \<Rightarrow>
             (case parseTabular itemContent lines lineIndex options of
                Inl e \<Rightarrow> Inl e
              | Inr parsed \<Rightarrow>
                  (case obj_assign [] key (resultValue parsed) of
                     Inl e \<Rightarrow> Inl e
                   | Inr ob \<Rightarrow> Inr (ob, lineIndex + linesConsumed parsed))))
      else if is_multiline_array_line is_word itemContent then
        (case parseKey itemContent of
           Inl e \<Rightarrow> Inl e
         | Inr None \<Rightarrow> Inr ([], lineIndex + 1)
         | Inr (Some (key, r, wq)) \<Rightarrow>
             (case array itemContent lines lineIndex options of
                Inl e \<Rightarrow> Inl e
              | Inr parsed \<Rightarrow>
                  (case obj_assign [] key (resultValue parsed) of
                     Inl e \<Rightarrow> Inl e
                   | Inr ob \<Rightarrow> Inr (ob, lineIndex + linesConsumed parsed))))
      else
        (case parseKey itemContent of
           Inl e \<Rightarrow> Inl e
         | Inr None \<Rightarrow> Inr ([], lineIndex + 1)
         | Inr (Some (key, rest, wq)) \<Rightarrow>
             (case match_colon rest of
                None \<Rightarrow> Inr ([], lineIndex + 1)
              | Some v \<Rightarrow>
                  if trim v = [] then
                    (case nestedLines lines (lineIndex + 1) options of
                       Inl e \<Rightarrow> Inl e
                     | Inr nested \<Rightarrow>
                         (case obj_assign [] key (resultValue nested) of
                            Inl e \<Rightarrow> Inl e
                          | Inr ob \<Rightarrow> Inr (ob, lineIndex + 1 + linesConsumed nested)))
                  else
                    (case parsePrimitive (trim v) lineIndex of
                       Inl e \<Rightarrow> Inl e
                     | Inr x \<Rightarrow>
                         (case obj_assign [] key x of
                            Inl e \<Rightarrow> Inl e
                          | Inr ob \<Rightarrow> Inr (ob, lineIndex + 1))))))"

definition parseMoreFields_body ::
  "(string list \<Rightarrow> nat \<Rightarrow> DecodeOptions \<Rightarrow> obj \<Rightarrow> nat
     \<Rightarrow> (obj \<times> nat) result)
     \<Rightarrow> (string \<Rightarrow> string list \<Rightarrow> nat \<Rightarrow> DecodeOptions \<Rightarrow> ParseResult result)
     \<Rightarrow> (string list \<Rightarrow> nat \<Rightarrow> DecodeOptions \<Rightarrow> ParseResult result) \<Rightarrow> string list \<Rightarrow> nat \<Rightarrow> DecodeOptions \<Rightarrow> obj \<Rightarrow> nat
     \<Rightarrow> (obj \<times> nat) result" where
  "parseMoreFields_body moreFields array nestedLines lines baseIndent options ob lineIndex =
     (if \<not> lineIndex < length lines then Inr (ob, lineIndex)
      else if trim (lines ! lineIndex) = []
        then moreFields lines baseIndent options ob (lineIndex + 1)
      else if getIndentLevel (lines ! lineIndex) \<le> baseIndent then Inr (ob, lineIndex)
      else if is_inline_array_line is_word (trim (lines ! lineIndex)) then
        (case parseInlineArray (trim (lines ! lineIndex)) lineIndex of
           Inl e \<Rightarrow> Inl e
         | Inr (key, vals, d) \<Rightarrow>
             (case obj_assign ob key (TArray vals) of
                Inl e \<Rightarrow> Inl e
              | Inr ob' \<Rightarrow> moreFields lines baseIndent options ob' (lineIndex + 1)))
      else if is_tabular_line is_word (trim (lines ! lineIndex)) then
        (case parseKey (trim (lines ! lineIndex)) of
           Inl e \<Rightarrow> Inl e
         | Inr None \<Rightarrow> Inr (ob, lineIndex)
         | Inr (Some (key, r, wq)) \<Rightarrow>
             (case parseTabular (trim (lines ! lineIndex)) lines lineIndex options of
                Inl e \<Rightarrow> Inl e
              | Inr parsed \<Rightarrow>
                  (case obj_assign ob key (resultValue parsed) of
                     Inl e \<Rightarrow> Inl e
                   | Inr ob' \<Rightarrow>
                       moreFields lines baseIndent options ob'
                         (lineIndex + linesConsumed parsed))))
      else if is_multiline_array_line is_word (trim (lines ! lineIndex)) then
        (case parseKey (trim (lines ! lineIndex)) of
           Inl e \<Rightarrow> Inl e
         | Inr None \<Rightarrow> Inr (ob, lineIndex)
         | Inr (Some (key, r, wq)) \<Rightarrow>
             (case array (trim (lines ! lineIndex)) lines lineIndex options of
                Inl e \<Rightarrow> Inl e
              | Inr parsed \<Rightarrow>
                  (case obj_assign ob key (resultValue parsed) of
                     Inl e \<Rightarrow> Inl e
                   | Inr ob' \<Rightarrow>
                       moreFields lines baseIndent options ob'
                         (lineIndex + linesConsumed parsed))))
      else
        (case parseKey (trim (lines ! lineIndex)) of
           Inl e \<Rightarrow> Inl e
         | Inr None \<Rightarrow> Inr (ob, lineIndex)
         | Inr (Some (key, rest, wq)) \<Rightarrow>
             (case match_colon rest of
                None \<Rightarrow> Inr (ob, lineIndex)
              | Some v \<Rightarrow>
                  if trim v = [] then
                    (case nestedLines lines (lineIndex + 1) options of
                       Inl e \<Rightarrow> Inl e
                     | Inr nested \<Rightarrow>
                         (case obj_assign ob key (resultValue nested) of
                            Inl e \<Rightarrow> Inl e
                          | Inr ob' \<Rightarrow>
                              moreFields lines baseIndent options ob'
                                (lineIndex + 1 + linesConsumed nested)))
                  else
                    (case parsePrimitive (trim v) lineIndex of
                       Inl e \<Rightarrow> Inl e
                     | Inr x \<Rightarrow>
                         (case obj_assign ob key x of
                            Inl e \<Rightarrow> Inl e
                          | Inr ob' \<Rightarrow>
                              moreFields lines baseIndent options ob' (lineIndex + 1))))))"

definition parseRootArray_body ::
  "(string list \<Rightarrow> nat \<Rightarrow> count \<Rightarrow> nat \<Rightarrow> DecodeOptions \<Rightarrow> ParseResult result) \<Rightarrow> string \<Rightarrow> string list \<Rightarrow> nat \<Rightarrow> DecodeOptions \<Rightarrow> ParseResult result" where
  "parseRootArray_body listFormat header lines startIndex options =
     (case match_root_inline header of
        Some (bracketContent, valueStr) \<Rightarrow> rootInline bracketContent valueStr startIndex
      | None \<Rightarrow>
          (case match_tabular_header header of
             Some (bracketContent, keysStr) \<Rightarrow> rootTabular bracketContent keysStr lines startIndex
           | None \<Rightarrow>
               (case match_multiline_header header of
                  None \<Rightarrow> Inl (ToonDecodeError InvalidRootArrayFormat startIndex)
                | Some bracketContent \<Rightarrow>
                    if declaredCount bracketContent = Some 0
                    then Inr \<lparr>resultValue = TArray [], linesConsumed = 1, keyMetadata = None\<rparr>
                    else if startIndex + 1 < length lines
                            \<and> is_list_marker (trim (lines ! (startIndex + 1)))
                    then listFormat lines (startIndex + 1) (declaredCount bracketContent)
                           (getIndentLevel (lines ! (startIndex + 1))) options
                    else primitiveArray lines startIndex (declaredCount bracketContent) options)))"

function parseLines :: "nat \<Rightarrow> string list \<Rightarrow> nat \<Rightarrow> DecodeOptions \<Rightarrow> ParseResult result"
and parseLinesLoop ::
  "nat \<Rightarrow> string list \<Rightarrow> nat \<Rightarrow> DecodeOptions \<Rightarrow> nat \<Rightarrow> nat \<Rightarrow> obj \<Rightarrow> (string \<times> bool) list
     \<Rightarrow> ParseResult result"
and parseArray :: "nat \<Rightarrow> string \<Rightarrow> string list \<Rightarrow> nat \<Rightarrow> DecodeOptions \<Rightarrow> ParseResult result"
and parseListFormat ::
  "nat \<Rightarrow> string list \<Rightarrow> nat \<Rightarrow> count \<Rightarrow> nat \<Rightarrow> DecodeOptions \<Rightarrow> ParseResult result"
and parseListLoop ::
  "nat \<Rightarrow> string list \<Rightarrow> count \<Rightarrow> nat \<Rightarrow> DecodeOptions \<Rightarrow> ToonValue list \<Rightarrow> nat
     \<Rightarrow> (ToonValue list \<times> nat) result"
and parseFirstField ::
  "nat \<Rightarrow> string \<Rightarrow> string list \<Rightarrow> nat \<Rightarrow> DecodeOptions \<Rightarrow> (obj \<times> nat) result"
and parseMoreFields ::
  "nat \<Rightarrow> string list \<Rightarrow> nat \<Rightarrow> DecodeOptions \<Rightarrow> obj \<Rightarrow> nat \<Rightarrow> (obj \<times> nat) result"
and parseRootArray :: "nat \<Rightarrow> string \<Rightarrow> string list \<Rightarrow> nat \<Rightarrow> DecodeOptions \<Rightarrow> ParseResult result"
where
  "parseLines 0 lines startIndex options = Inl FuelExhausted"
| "parseLines (Suc n) lines startIndex options =
     parseLines_body (parseLinesLoop n) lines startIndex options"
| "parseLinesLoop 0 lines startIndex options baseIndent lineIndex res meta = Inl FuelExhausted"
| "parseLinesLoop (Suc n) lines startIndex options baseIndent lineIndex res meta =
     parseLinesLoop_body (parseLinesLoop n) (parseArray n) (parseLines n) lines startIndex options baseIndent lineIndex res meta"
| "parseArray 0 header lines startIndex options = Inl FuelExhausted"
| "parseArray (Suc n) header lines startIndex options =
     parseArray_body (parseListFormat n) header lines startIndex options"
| "parseListFormat 0 lines startIndex count baseIndent options = Inl FuelExhausted"
| "parseListFormat (Suc n) lines startIndex count baseIndent options =
     parseListFormat_body (parseListLoop n) lines startIndex count baseIndent options"
| "parseListLoop 0 lines count baseIndent options res lineIndex = Inl FuelExhausted"
| "parseListLoop (Suc n) lines count baseIndent options res lineIndex =
     parseListLoop_body (parseListLoop n) (parseRootArray n) (parseFirstField n) (parseMoreFields n) lines count baseIndent options res lineIndex"
| "parseFirstField 0 itemContent lines lineIndex options = Inl FuelExhausted"
| "parseFirstField (Suc n) itemContent lines lineIndex options =
     parseFirstField_body (parseArray n) (parseLines n) itemContent lines lineIndex options"
| "parseMoreFields 0 lines baseIndent options ob lineIndex = Inl FuelExhausted"
| "parseMoreFields (Suc n) lines baseIndent options ob lineIndex =
     parseMoreFields_body (parseMoreFields n) (parseArray n) (parseLines n) lines baseIndent options ob lineIndex"
| "parseRootArray 0 header lines startIndex options = Inl FuelExhausted"
| "parseRootArray (Suc n) header lines startIndex options =
     parseRootArray_body (parseListFormat n) header lines startIndex options"
  by pat_completeness auto
termination
  by (relation "measure (case_sum (case_sum (case_sum fst fst) (case_sum fst fst))
                                  (case_sum (case_sum fst fst) (case_sum fst fst)))") auto

section \<open>Path expansion\<close>

definition is_identifier :: "string \<Rightarrow> bool" where
  \<comment> \<open>\<^verbatim>\<open>/^[a-zA-Z_]\w*$/\<close>\<close>
  "is_identifier part =
     (case part of [] \<Rightarrow> False
      | c # r \<Rightarrow> is_word c \<and> \<not> is_digit c \<and> (\<forall>x\<in>set r. is_word x))"

definition shouldExpandKey :: "string \<Rightarrow> bool \<Rightarrow> DecodeOptions \<Rightarrow> bool" where
  "shouldExpandKey key wasQuoted options =
     (if expandSafe options \<noteq> Some True then False
      else if wasQuoted then False
      else if \<not> includesChar key (CHR ''.'') then False
      else list_all is_identifier (split_on (CHR ''.'') key))"

definition value_type :: "ToonValue \<Rightarrow> jstype" where
  \<comment> \<open>the three-way classification of \<^verbatim>\<open>setNestedValue\<close>; \<^verbatim>\<open>null\<close> is a primitive\<close>
  "value_type v = (case v of TArray _ \<Rightarrow> ArrayT | TObject _ \<Rightarrow> ObjectT | _ \<Rightarrow> PrimitiveT)"

definition property_type :: "property \<Rightarrow> jstype" where
  \<comment> \<open>the same classification of what a property read returned (a function is neither an
      array nor of type \<^verbatim>\<open>'object'\<close>)\<close>
  "property_type p =
     (case p of Own v \<Rightarrow> value_type v | TheObjectPrototype \<Rightarrow> ObjectT | _ \<Rightarrow> PrimitiveT)"

definition own_entries :: "property \<Rightarrow> obj" where
  \<comment> \<open>what a spread copies: the own enumerable properties\<close>
  "own_entries p = (case p of Own (TObject es) \<Rightarrow> es | _ \<Rightarrow> [])"

fun setNestedValue :: "obj \<Rightarrow> string list \<Rightarrow> ToonValue \<Rightarrow> DecodeOptions \<Rightarrow> obj result" where
  \<comment> \<open>the program mutates \<^verbatim>\<open>obj\<close>; the model returns the object after the call\<close>
  "setNestedValue ob [] v options = Inr ob"
| "setNestedValue ob [key] v options =
     (case obj_get ob key of
        Undefined \<Rightarrow> obj_assign ob key v
      | existing \<Rightarrow>
          if property_type existing \<noteq> value_type v then
            (if is_strict options
             then Inl (ToonDecodeError (PathConflictMerge (value_type v) (property_type existing)) 0)
             else obj_assign ob key v)
          else if property_type existing = ObjectT \<and> value_type v = ObjectT
          then obj_assign ob key
                 (TObject (obj_spread (own_entries existing) (own_entries (Own v))))
          else obj_assign ob key v)"
| "setNestedValue ob (first # rest) v options =
     (case obj_get ob first of
        Own (TObject child) \<Rightarrow>
          (case setNestedValue child rest v options of
             Inl e \<Rightarrow> Inl e
           | Inr child' \<Rightarrow> Inr (obj_define ob first (TObject child')))
      | Own TNull \<Rightarrow> Inl TypeError
      | TheObjectPrototype \<Rightarrow> Inl PrototypeAccess
      | existing \<Rightarrow>
          if existing \<noteq> Undefined \<and> is_strict options
          then Inl (ToonDecodeError PathConflictNested 0)
          else
            (case obj_assign ob first (TObject []) of
               Inl e \<Rightarrow> Inl e
             | Inr ob' \<Rightarrow>
                 (case setNestedValue [] rest v options of
                    Inl e \<Rightarrow> Inl e
                  | Inr child' \<Rightarrow> Inr (obj_define ob' first (TObject child')))))"

text \<open>
  In the last equation, \<^verbatim>\<open>typeof null\<close> is \<^verbatim>\<open>'object'\<close>: a prefix holding
  \<^verbatim>\<open>null\<close> passes the conflict test, and the recursive call reads a property of
  \<^verbatim>\<open>null\<close>. The prefix \<^verbatim>\<open>__proto__\<close> reads \<^verbatim>\<open>Object.prototype\<close>, which passes the
  test as well, and the recursive call works on that shared object.
\<close>

definition wasQuoted :: "(string \<times> bool) list \<Rightarrow> string \<Rightarrow> bool" where
  \<comment> \<open>\<^verbatim>\<open>metadata.get(key) ?? false\<close>\<close>
  "wasQuoted meta key = (case map_of meta key of None \<Rightarrow> False | Some q \<Rightarrow> q)"

fun expandEntries :: "obj \<Rightarrow> (string \<times> bool) list \<Rightarrow> DecodeOptions \<Rightarrow> obj \<Rightarrow> obj result" where
  \<comment> \<open>the loop over \<^verbatim>\<open>Object.entries(obj)\<close>, with \<^verbatim>\<open>result\<close> as last argument\<close>
  "expandEntries [] meta options res = Inr res"
| "expandEntries ((key, v) # es) meta options res =
     (case (if shouldExpandKey key (wasQuoted meta key) options
            then setNestedValue res (split_on (CHR ''.'') key) v options
            else obj_assign res key v) of
        Inl e \<Rightarrow> Inl e
      | Inr res' \<Rightarrow> expandEntries es meta options res')"

definition expandPaths :: "obj \<Rightarrow> (string \<times> bool) list \<Rightarrow> DecodeOptions \<Rightarrow> obj result" where
  "expandPaths ob meta options = expandEntries ob meta options []"

section \<open>The entry point\<close>

definition js_remainder :: "nat \<Rightarrow> int \<Rightarrow> int option" where
  \<comment> \<open>\<^verbatim>\<open>a % b\<close> for a non-negative \<open>a\<close>: NaN (\<open>None\<close>) when \<open>b\<close> is zero, else the
      remainder of the truncating division\<close>
  "js_remainder a b = (if b = 0 then None else Some (int a mod \<bar>b\<bar>))"

fun validateFrom :: "string list \<Rightarrow> int \<Rightarrow> nat \<Rightarrow> unit result" where
  \<comment> \<open>the loop of \<^verbatim>\<open>validateIndentation\<close>: the lines from index \<open>i\<close> on\<close>
  "validateFrom [] ind i = Inr ()"
| "validateFrom (line # rest) ind i =
     (if trim line = [] then validateFrom rest ind (i + 1)
      else if includesChar (takeWhile is_space line) TAB
        then Inl (ToonDecodeError TabInIndentation (i + 1))
      else if 0 < getIndentLevel line \<and> js_remainder (getIndentLevel line) ind \<noteq> Some 0
        then Inl (ToonDecodeError (InvalidIndentation ind (getIndentLevel line)) (i + 1))
      else validateFrom rest ind (i + 1))"

definition validateIndentation :: "string list \<Rightarrow> int \<Rightarrow> unit result" where
  "validateIndentation lines ind = validateFrom lines ind 0"

definition normalizeOptions :: "DecodeOptions \<Rightarrow> DecodeOptions" where
  \<comment> \<open>\<^verbatim>\<open>strict ?? false\<close>, \<^verbatim>\<open>indent ?? 2\<close>, \<^verbatim>\<open>expandPaths ?? 'off'\<close>\<close>
  "normalizeOptions options =
     \<lparr>strict = Some (case strict options of None \<Rightarrow> False | Some b \<Rightarrow> b),
      indent = Some (case indent options of None \<Rightarrow> 2 | Some i \<Rightarrow> i),
      expandSafe = Some (case expandSafe options of None \<Rightarrow> False | Some b \<Rightarrow> b)\<rparr>"

definition indentOf :: "DecodeOptions \<Rightarrow> int" where
  "indentOf opts = (case indent opts of None \<Rightarrow> 2 | Some i \<Rightarrow> i)"

definition rootPrimitive :: "string list \<Rightarrow> ToonValue result option" where
  \<comment> \<open>the section \<^verbatim>\<open>Check for root-level primitive\<close>: \<open>Some r\<close> when it returns\<close>
  "rootPrimitive nonEmptyLines =
     (case nonEmptyLines of
        [only] \<Rightarrow>
          (let line = trim only;
               quoted =
                 (if startsWith line [DQ] \<and> endsWith line [DQ] \<and> 1 < length line then
                    (case parseKey line of
                       Inl e \<Rightarrow> Some (Inl e)
                     | Inr None \<Rightarrow> Some (parsePrimitive only 0)
                     | Inr (Some (key, rest, wq)) \<Rightarrow>
                         if \<not> startsWith (trim rest) '':'' then Some (parsePrimitive only 0)
                         else None)
                  else None)
           in case quoted of
                Some r \<Rightarrow> Some r
              | None \<Rightarrow> if \<not> includesChar line (CHR '':'') then Some (parsePrimitive only 0)
                        else None)
      | _ \<Rightarrow> None)"

definition parseFuel :: "string list \<Rightarrow> nat" where
  \<comment> \<open>the budget the entry point gives the recursive descent\<close>
  "parseFuel lines = 8 * length lines + 8"

definition decodeLines :: "string list \<Rightarrow> DecodeOptions \<Rightarrow> ToonValue result" where
  \<comment> \<open>\<^verbatim>\<open>decode\<close> from the root-primitive check on, with the normalized options\<close>
  "decodeLines lines opts =
     (let nonEmptyLines = filter (\<lambda>l. trim l \<noteq> []) lines in
      case rootPrimitive nonEmptyLines of
        Some r \<Rightarrow> r
      | None \<Rightarrow>
          if is_strict opts \<and> 1 < length nonEmptyLines
             \<and> list_all (\<lambda>line. \<not> includesChar line (CHR '':'') \<and> \<not> startsWith line ''['')
                  nonEmptyLines
          then Inl (ToonDecodeError MultiplePrimitivesAtRoot 1)
          else
            (case nonEmptyLines of
               [] \<Rightarrow> Inl TypeError
             | firstLine # others \<Rightarrow>
                 if startsWith (trim firstLine) ''[''
                 then bind (parseRootArray (parseFuel lines) (trim firstLine) lines 0 opts)
                        (\<lambda>parsed. Inr (resultValue parsed))
                 else
                   bind (parseLines (parseFuel lines) lines 0 opts)
                     (\<lambda>parsed.
                        case resultValue parsed of
                          TObject ob \<Rightarrow>
                            if expandSafe opts = Some True
                            then bind (expandPaths ob
                                         (case keyMetadata parsed of None \<Rightarrow> [] | Some m \<Rightarrow> m)
                                         opts)
                                   (\<lambda>expanded. Inr (TObject expanded))
                            else Inr (TObject ob)
                        | v \<Rightarrow> Inr v)))"

definition decode :: "string \<Rightarrow> DecodeOptions \<Rightarrow> ToonValue result" where
  "decode toon options =
     (let opts = normalizeOptions options in
      if trim toon = [] then Inr (TObject [])
      else
        (let lines = split_on LF toon in
         case (if is_strict opts then validateIndentation lines (indentOf opts) else Inr ()) of
           Inl e \<Rightarrow> Inl e
         | Inr u \<Rightarrow> decodeLines lines opts))"

definition defaults :: DecodeOptions where
  \<comment> \<open>a call without options\<close>
  "defaults = \<lparr>strict = None, indent = None, expandSafe = None\<rparr>"

section \<open>Notions used in the statements\<close>

definition escape_char :: "char \<Rightarrow> string" where
  \<comment> \<open>what the five passes of \<^verbatim>\<open>escapeString\<close> make of one character\<close>
  "escape_char c =
     (if c = BSL then [BSL, BSL] else if c = DQ then [BSL, DQ]
      else if c = LF then [BSL, CHR ''n''] else if c = CR then [BSL, CHR ''r'']
      else if c = TAB then [BSL, CHR ''t''] else [c])"



definition bad_indentation :: "int \<Rightarrow> string \<Rightarrow> bool" where
  \<comment> \<open>a non-empty line with a tab in its leading white space, or whose leading white
      space has a length that is not a multiple of the indent option\<close>
  "bad_indentation ind line \<longleftrightarrow>
     trim line \<noteq> [] \<and>
     (TAB \<in> set (takeWhile is_space line) \<or> \<not> ind dvd int (length (takeWhile is_space line)))"

definition indentation_message :: "int \<Rightarrow> string \<Rightarrow> message" where
  \<comment> \<open>what the error for such a line says\<close>
  "indentation_message ind line =
     (if TAB \<in> set (takeWhile is_space line) then TabInIndentation
      else InvalidIndentation ind (length (takeWhile is_space line)))"

definition number_char :: "char \<Rightarrow> bool" where
  \<comment> \<open>the characters a number lexeme is made of\<close>
  "number_char c \<longleftrightarrow> is_digit c \<or> c = CHR ''-'' \<or> c = CHR ''+'' \<or> c = CHR ''.''
     \<or> c = CHR ''e'' \<or> c = CHR ''E''"

text \<open>The number pattern, read as a grammar.\<close>

definition digit_run :: "string \<Rightarrow> bool" where
  "digit_run d \<longleftrightarrow> d \<noteq> [] \<and> (\<forall>c\<in>set d. is_digit c)"

definition number_text ::
  "bool \<Rightarrow> string \<Rightarrow> string option \<Rightarrow> (char \<times> string \<times> string) option \<Rightarrow> string" where
  "number_text neg ip fp ex =
     (if neg then ''-'' else []) @ ip
     @ (case fp of None \<Rightarrow> [] | Some d \<Rightarrow> CHR ''.'' # d)
     @ (case ex of None \<Rightarrow> [] | Some (el, sg, d) \<Rightarrow> el # sg @ d)"

definition number_shape :: "string \<Rightarrow> bool" where
  "number_shape s \<longleftrightarrow>
     (\<exists>neg ip fp ex.
        s = number_text neg ip fp ex \<and> digit_run ip
        \<and> (case fp of None \<Rightarrow> True | Some d \<Rightarrow> digit_run d)
        \<and> (case ex of None \<Rightarrow> True
            | Some (el, sg, d) \<Rightarrow>
                (el = CHR ''e'' \<or> el = CHR ''E'') \<and> (sg = [] \<or> sg = ''+'' \<or> sg = ''-'')
                \<and> digit_run d))"




section \<open>Escaping and unescaping: proofs\<close>

lemma replaceAll_append: "replaceAll c rep (a @ b) = replaceAll c rep a @ replaceAll c rep b"
  by (simp add: replaceAll_def)

lemma escapeString_append: "escapeString (a @ b) = escapeString a @ escapeString b"
  by (simp add: escapeString_def replaceAll_append)

lemma escapeString_single: "escapeString [c] = escape_char c"
  by (simp add: escapeString_def replaceAll_def escape_char_def)

lemma escapeString_Cons: "escapeString (c # s) = escape_char c @ escapeString s"
  using escapeString_append [of "[c]" s] by (simp add: escapeString_single)

lemma escapeString_Nil: "escapeString [] = []"
  by (simp add: escapeString_def replaceAll_def)

lemma unescape_loop_plain:
  "c \<noteq> BSL \<Longrightarrow> unescape_loop (c # rest) acc li = unescape_loop rest (acc @ [c]) li"
  by (cases rest) simp_all

lemma unescape_loop_escape_char:
  "unescape_loop (escape_char c @ rest) acc li = unescape_loop rest (acc @ [c]) li"
  by (simp add: escape_char_def unescape_loop_plain)

lemma unescape_loop_escapeString:
  "unescape_loop (escapeString s @ rest) acc li = unescape_loop rest (acc @ s) li"
proof (induction s arbitrary: acc)
  case Nil
  show ?case by (simp add: escapeString_Nil)
next
  case (Cons c s)
  show ?case
    by (simp add: escapeString_Cons unescape_loop_escape_char Cons.IH)
qed

text \<open>
  Claim C4. Unescaping an escaped string gives the string back: for every string \<open>s\<close>,
  and whether or not a line index is passed, \<^verbatim>\<open>unescapeString(escapeString(s))\<close> returns
  \<open>s\<close> and throws nothing.
\<close>

theorem unescape_escape: "unescapeString (escapeString s) lineIndex = Inr s"
  using unescape_loop_escapeString [of s "[]" "[]" lineIndex]
  by (simp add: unescapeString_def)

theorem unescape_escape_witness:
  "unescapeString (escapeString [CHR ''a'', BSL, DQ, LF, CHR ''n'']) (Some 0)
     = Inr [CHR ''a'', BSL, DQ, LF, CHR ''n'']"
  by (rule unescape_escape)





lemma unescape_loop_error_kind:
  "unescape_loop s acc (Some l) = Inl e \<Longrightarrow> \<exists>c. e = InvalidEscape c (l + 1)"
  by (induction s acc "Some l" rule: unescape_loop.induct) (auto split: if_splits)






text \<open>
  So a quoted field name of a tabular header may hold such a backslash, and the document
  decodes.
\<close>

lemma decode_tabular_header_keeps_backslash:
  "decode (''xs[1]{'' @ [DQ, CHR ''a'', BSL, CHR ''x'', DQ] @ ''}:'' @ [LF] @ ''  1'') defaults
     = Inr (TObject [(''xs'', TArray [TObject [([CHR ''a'', BSL, CHR ''x''], TNumber (Fin 1))]])])"
  by code_simp

section \<open>White space\<close>

lemma dropWhile_all_iff: "(\<forall>x\<in>set (dropWhile P s). P x) \<longleftrightarrow> dropWhile P s = []"
proof
  assume a: "\<forall>x\<in>set (dropWhile P s). P x"
  show "dropWhile P s = []"
  proof (rule ccontr)
    assume ne: "dropWhile P s \<noteq> []"
    then have "\<not> P (hd (dropWhile P s))" by (rule hd_dropWhile)
    moreover from ne have "hd (dropWhile P s) \<in> set (dropWhile P s)" by simp
    ultimately show False using a by blast
  qed
next
  assume "dropWhile P s = []"
  then show "\<forall>x\<in>set (dropWhile P s). P x" by (simp only: list.set ball_empty)
qed

lemma trim_eq_Nil: "trim s = [] \<longleftrightarrow> (\<forall>c\<in>set s. is_space c)"
  by (simp add: trim_def dropWhile_eq_Nil_conv dropWhile_all_iff)

lemma dropWhile_rev_split: "\<exists>w. a = rev (dropWhile P (rev a)) @ w \<and> (\<forall>c\<in>set w. P c)"
proof -
  have "rev a = takeWhile P (rev a) @ dropWhile P (rev a)" by simp
  then have "a = rev (dropWhile P (rev a)) @ rev (takeWhile P (rev a))"
    by (metis rev_append rev_rev_ident)
  moreover have "\<forall>c\<in>set (rev (takeWhile P (rev a))). P c"
    by (auto dest: set_takeWhileD)
  ultimately show ?thesis by blast
qed

lemma trim_hd: "trim s \<noteq> [] \<Longrightarrow> \<not> is_space (hd (trim s))"
proof -
  assume ne: "trim s \<noteq> []"
  let ?a = "dropWhile is_space s"
  obtain w where w: "?a = trim s @ w" 
    using dropWhile_rev_split [of ?a is_space] by (auto simp: trim_def)
  with ne have "hd (trim s) = hd ?a" by (cases "trim s") auto
  moreover from w ne have "?a \<noteq> []" by auto
  ultimately show ?thesis using hd_dropWhile [of is_space s] by simp
qed

lemma trim_last: "trim s \<noteq> [] \<Longrightarrow> \<not> is_space (last (trim s))"
proof -
  assume ne: "trim s \<noteq> []"
  then have "dropWhile is_space (rev (dropWhile is_space s)) \<noteq> []" by (simp add: trim_def)
  then have "\<not> is_space (hd (dropWhile is_space (rev (dropWhile is_space s))))"
    by (rule hd_dropWhile)
  then show ?thesis using ne by (simp add: trim_def last_rev)
qed

lemma trim_id: "s = [] \<or> (\<not> is_space (hd s) \<and> \<not> is_space (last s)) \<Longrightarrow> trim s = s"
proof (cases s)
  case Nil then show ?thesis by (simp add: trim_def)
next
  case (Cons c r)
  assume "s = [] \<or> (\<not> is_space (hd s) \<and> \<not> is_space (last s))"
  with Cons have h: "\<not> is_space c" and l: "\<not> is_space (last s)" by auto
  from h Cons have "dropWhile is_space s = s" by simp
  moreover have "dropWhile is_space (rev s) = rev s"
  proof (cases "rev s")
    case Nil with Cons show ?thesis by simp
  next
    case rs: (Cons a list)
    then have "a = hd (rev s)" by simp
    also have "\<dots> = last s" by (rule hd_rev)
    finally have "\<not> is_space a" using l by simp
    then show ?thesis by (simp add: rs)
  qed
  ultimately show ?thesis by (simp add: trim_def)
qed

lemma trim_idem: "trim (trim s) = trim s"
  by (rule trim_id) (use trim_hd trim_last in blast)

lemma trim_no_space: "\<forall>c\<in>set s. \<not> is_space c \<Longrightarrow> trim s = s"
  by (rule trim_id) (cases s, auto)

section \<open>Number lexemes\<close>

lemma opt_minus_split:
  "opt_minus s = (neg, r) \<Longrightarrow> s = (if neg then ''-'' else []) @ r"
  by (auto simp: opt_minus_def split: list.splits if_splits)

lemma opt_sign_split:
  "opt_sign s = (neg, r) \<Longrightarrow> \<exists>sg. s = sg @ r \<and> (sg = [] \<or> sg = ''+'' \<or> sg = ''-'') \<and> (neg \<longleftrightarrow> sg = ''-'')"
  by (auto simp: opt_sign_def split: list.splits if_splits)

lemma digits1_split:
  "digits1 s = Some (d, r) \<Longrightarrow> s = d @ r \<and> d \<noteq> [] \<and> (\<forall>c\<in>set d. is_digit c)"
  by (auto simp: digits1_def Let_def split: if_splits dest: set_takeWhileD)

lemma opt_fraction_split:
  "opt_fraction s = (fp, r) \<Longrightarrow>
     s = (case fp of None \<Rightarrow> [] | Some d \<Rightarrow> CHR ''.'' # d) @ r
     \<and> (\<forall>d. fp = Some d \<longrightarrow> d \<noteq> [] \<and> (\<forall>c\<in>set d. is_digit c))"
  by (auto simp: opt_fraction_def split: list.splits if_splits option.splits dest: digits1_split)

lemma opt_exponent_split:
  "opt_exponent s = (ex, r) \<Longrightarrow>
     (ex = None \<and> r = s) \<or>
     (\<exists>el sg eneg d. ex = Some (eneg, d) \<and> s = el # sg @ d @ r \<and> (el = CHR ''e'' \<or> el = CHR ''E'')
        \<and> (sg = [] \<or> sg = ''+'' \<or> sg = ''-'') \<and> (eneg \<longleftrightarrow> sg = ''-'')
        \<and> d \<noteq> [] \<and> (\<forall>c\<in>set d. is_digit c))"
proof (cases s)
  case Nil
  moreover assume "opt_exponent s = (ex, r)"
  ultimately show ?thesis by (simp add: opt_exponent_def)
next
  case (Cons c t)
  assume a: "opt_exponent s = (ex, r)"
  show ?thesis
  proof (cases "c = CHR ''e'' \<or> c = CHR ''E''")
    case False
    with a Cons show ?thesis by (auto simp: opt_exponent_def)
  next
    case True
    obtain neg r1 where os: "opt_sign t = (neg, r1)" by (cases "opt_sign t")
    then obtain sg where sg: "t = sg @ r1" "sg = [] \<or> sg = ''+'' \<or> sg = ''-''" "neg \<longleftrightarrow> sg = ''-''"
      using opt_sign_split by blast
    show ?thesis
    proof (cases "digits1 r1")
      case None
      with a Cons True os show ?thesis by (auto simp: opt_exponent_def)
    next
      case (Some p)
      obtain d r2 where p: "p = (d, r2)" by (cases p)
      with Some have d: "r1 = d @ r2" "d \<noteq> []" "\<forall>c\<in>set d. is_digit c"
        using digits1_split by blast+
      from a Cons True os Some p have "ex = Some (neg, d)" "r = r2"
        by (auto simp: opt_exponent_def)
      with Cons True sg d show ?thesis by auto
    qed
  qed
qed

lemma match_number_chars:
  assumes "is_number_lexeme s"
  shows "\<forall>c\<in>set s. number_char c"
proof -
  obtain neg s1 where m: "opt_minus s = (neg, s1)" by (cases "opt_minus s")
  from assms m obtain ip s2 where d: "digits1 s1 = Some (ip, s2)"
    by (auto simp: is_number_lexeme_def match_number_def split: option.splits)
  obtain fp s3 where f: "opt_fraction s2 = (fp, s3)" by (cases "opt_fraction s2")
  obtain ex s4 where e: "opt_exponent s3 = (ex, s4)" by (cases "opt_exponent s3")
  from assms m d f e have s4: "s4 = []"
    by (auto simp: is_number_lexeme_def match_number_def split: if_splits)
  from opt_minus_split [OF m] have 1: "s = (if neg then ''-'' else []) @ s1" .
  from digits1_split [OF d] have 2: "s1 = ip @ s2" "\<forall>c\<in>set ip. is_digit c" by auto
  from opt_fraction_split [OF f] have 3: "s2 = (case fp of None \<Rightarrow> [] | Some d \<Rightarrow> CHR ''.'' # d) @ s3"
    "\<forall>d. fp = Some d \<longrightarrow> (\<forall>c\<in>set d. is_digit c)" by auto
  have 4: "\<forall>c\<in>set s3. number_char c"
    using opt_exponent_split [OF e] s4 by (auto simp: number_char_def)
  from 3 have "\<forall>c\<in>set s2. number_char c"
    using 4 by (cases fp) (auto simp: number_char_def)
  with 2 have "\<forall>c\<in>set s1. number_char c" by (auto simp: number_char_def)
  with 1 show ?thesis by (cases neg) (auto simp: number_char_def)
qed

lemma number_char_not_space: "number_char c \<Longrightarrow> \<not> is_space c"
  by (auto simp: number_char_def is_space_def is_digit_def code_unit_def)

lemma number_char_not_quote: "number_char c \<Longrightarrow> c \<noteq> DQ"
  by (auto simp: number_char_def is_digit_def code_unit_def)

lemma number_lexeme_trim: "is_number_lexeme s \<Longrightarrow> trim s = s"
  by (rule trim_no_space) (use match_number_chars number_char_not_space in blast)

lemma number_lexeme_nonempty: "is_number_lexeme s \<Longrightarrow> s \<noteq> []"
  by (auto simp: is_number_lexeme_def match_number_def opt_minus_def digits1_def)

lemma number_lexeme_not_quoted: "is_number_lexeme s \<Longrightarrow> \<not> startsWith s [DQ]"
proof
  assume n: "is_number_lexeme s" and q: "startsWith s [DQ]"
  from q have "DQ \<in> set s" by (cases s) (auto simp: startsWith_def)
  with n show False using match_number_chars number_char_not_quote by blast
qed

lemma number_lexeme_not_keyword:
  "is_number_lexeme s \<Longrightarrow> s \<noteq> ''true'' \<and> s \<noteq> ''false'' \<and> s \<noteq> ''null''"
  using match_number_chars [of s]
  by (auto simp: number_char_def is_digit_def code_unit_def)

section \<open>Primitives: proofs\<close>

lemma parsePrimitive_trim: "parsePrimitive (trim str) l = parsePrimitive str l"
  by (simp add: parsePrimitive_def trim_idem)

lemma parseString_quoted:
  "startsWith t [DQ] \<Longrightarrow> endsWith t [DQ] \<Longrightarrow> trim t = t \<Longrightarrow>
   parseString t li = unescapeString (take (length t - 2) (drop 1 t)) li"
  by (simp add: parseString_def)

lemma parsePrimitive_unterminated:
  "startsWith (trim str) [DQ] \<Longrightarrow> \<not> endsWith (trim str) [DQ] \<or> length (trim str) < 2 \<Longrightarrow>
   parsePrimitive str l = Inl (ToonDecodeError UnterminatedString (l + 1))"
  by (auto simp: parsePrimitive_def)

lemma parsePrimitive_quoted:
  "startsWith (trim str) [DQ] \<Longrightarrow> endsWith (trim str) [DQ] \<Longrightarrow> 2 \<le> length (trim str) \<Longrightarrow>
   parsePrimitive str l =
     bind (unescapeString (take (length (trim str) - 2) (drop 1 (trim str))) (Some l))
       (\<lambda>s. Inr (TString s))"
  by (simp add: parsePrimitive_def parseString_quoted trim_idem Let_def)

lemma keyword_not_quoted:
  "\<not> startsWith ''true'' [DQ]" "\<not> startsWith ''false'' [DQ]" "\<not> startsWith ''null'' [DQ]"
  by (simp_all add: startsWith_def)

lemma parsePrimitive_keyword:
  "trim str = ''true'' \<Longrightarrow> parsePrimitive str l = Inr (TBool True)"
  "trim str = ''false'' \<Longrightarrow> parsePrimitive str l = Inr (TBool False)"
  "trim str = ''null'' \<Longrightarrow> parsePrimitive str l = Inr TNull"
  by (simp_all add: parsePrimitive_def keyword_not_quoted)

lemma parsePrimitive_number:
  assumes "is_number_lexeme (trim str)" "\<not> has_leading_zero (trim str)"
  shows "parsePrimitive str l =
           Inr (TNumber (if js_Number (trim str) = NegZero then Fin 0 else js_Number (trim str)))"
  using assms number_lexeme_not_quoted [OF assms(1)] number_lexeme_not_keyword [OF assms(1)]
  by (simp add: parsePrimitive_def Let_def)

lemma parsePrimitive_leading_zero:
  assumes "is_number_lexeme (trim str)" "has_leading_zero (trim str)"
  shows "parsePrimitive str l = Inr (TString (trim str))"
  using assms number_lexeme_not_quoted [OF assms(1)] number_lexeme_not_keyword [OF assms(1)]
  by (simp add: parsePrimitive_def Let_def)

lemma parsePrimitive_bare:
  assumes "\<not> startsWith (trim str) [DQ]" "trim str \<noteq> ''true''" "trim str \<noteq> ''false''"
    "trim str \<noteq> ''null''" "\<not> is_number_lexeme (trim str)"
  shows "parsePrimitive str l = Inr (TString (trim str))"
  using assms by (simp add: parsePrimitive_def Let_def)

lemma zero_lexemes:
  "parsePrimitive ''-0'' l = Inr (TNumber (Fin 0))"
  "parsePrimitive ''0'' l = Inr (TNumber (Fin 0))"
  "parsePrimitive ''-0.0'' l = Inr (TNumber (Fin 0))"
  "parsePrimitive ''007'' l = Inr (TString ''007'')"
  by code_simp+


text \<open>
  Claim C2. \<^verbatim>\<open>parsePrimitive\<close> works on the trimmed lexeme \<open>t\<close> and applies this order.
  If \<open>t\<close> begins with a double quote it must end with one and have length at least 2,
  otherwise the call throws the unterminated-string error with the line index plus one;
  if it does, the result is the unescaped interior as a string (the unescaping may throw).
  The lexemes \<^verbatim>\<open>true\<close>, \<^verbatim>\<open>false\<close>, \<^verbatim>\<open>null\<close> give the constants. A lexeme that
  matches the number pattern and has no leading zero gives the number \<^verbatim>\<open>Number(t)\<close>
  with negative zero turned into zero, so that \<^verbatim>\<open>-0\<close>, \<^verbatim>\<open>0\<close> and \<^verbatim>\<open>-0.0\<close> all give
  the number 0; one that matches and has a leading zero, such as \<^verbatim>\<open>007\<close>, is returned
  as a string. Every other lexeme is returned as a string, unchanged.
\<close>

theorem parsePrimitive_order:
  fixes str :: string and l :: nat
  defines "t \<equiv> trim str"
  shows
    "(startsWith t [DQ] \<and> (\<not> endsWith t [DQ] \<or> length t < 2)
        \<longrightarrow> parsePrimitive str l = Inl (ToonDecodeError UnterminatedString (l + 1)))
     \<and> (startsWith t [DQ] \<and> endsWith t [DQ] \<and> 2 \<le> length t
        \<longrightarrow> parsePrimitive str l =
              bind (unescapeString (take (length t - 2) (drop 1 t)) (Some l)) (\<lambda>s. Inr (TString s)))
     \<and> (t = ''true'' \<longrightarrow> parsePrimitive str l = Inr (TBool True))
     \<and> (t = ''false'' \<longrightarrow> parsePrimitive str l = Inr (TBool False))
     \<and> (t = ''null'' \<longrightarrow> parsePrimitive str l = Inr TNull)
     \<and> (is_number_lexeme t \<and> \<not> has_leading_zero t
        \<longrightarrow> parsePrimitive str l =
              Inr (TNumber (if js_Number t = NegZero then Fin 0 else js_Number t)))
     \<and> (is_number_lexeme t \<and> has_leading_zero t \<longrightarrow> parsePrimitive str l = Inr (TString t))
     \<and> (\<not> startsWith t [DQ] \<and> t \<noteq> ''true'' \<and> t \<noteq> ''false'' \<and> t \<noteq> ''null''
          \<and> \<not> is_number_lexeme t
        \<longrightarrow> parsePrimitive str l = Inr (TString t))
     \<and> parsePrimitive ''-0'' l = Inr (TNumber (Fin 0))
     \<and> parsePrimitive ''0'' l = Inr (TNumber (Fin 0))
     \<and> parsePrimitive ''-0.0'' l = Inr (TNumber (Fin 0))
     \<and> parsePrimitive ''007'' l = Inr (TString ''007'')"
  unfolding t_def
  using parsePrimitive_unterminated [of str l] parsePrimitive_quoted [of str l]
    parsePrimitive_keyword [of str l] parsePrimitive_number [of str l]
    parsePrimitive_leading_zero [of str l] parsePrimitive_bare [of str l] zero_lexemes [of l]
  by blast

theorem parsePrimitive_order_witness:
  "parsePrimitive [DQ, CHR ''a''] 3 = Inl (ToonDecodeError UnterminatedString 4)
   \<and> parsePrimitive [DQ, CHR ''a'', BSL, CHR ''n'', DQ] 3 = Inr (TString [CHR ''a'', LF])
   \<and> parsePrimitive '' true '' 3 = Inr (TBool True)
   \<and> parsePrimitive ''12'' 3 = Inr (TNumber (Fin 12))
   \<and> parsePrimitive ''0012'' 3 = Inr (TString ''0012'')
   \<and> parsePrimitive '' hello world '' 3 = Inr (TString ''hello world'')"
proof -
  have t1: "trim [DQ, CHR ''a''] = [DQ, CHR ''a'']"
    and t2: "trim [DQ, CHR ''a'', BSL, CHR ''n'', DQ] = [DQ, CHR ''a'', BSL, CHR ''n'', DQ]"
    and t3: "trim '' true '' = ''true''"
    and t4: "trim ''12'' = ''12''"
    and t5: "trim ''0012'' = ''0012''"
    and t6: "trim '' hello world '' = ''hello world''"
    by code_simp+
  have n4: "is_number_lexeme ''12''" "\<not> has_leading_zero ''12''" "js_Number ''12'' = Fin 12"
    by code_simp+
  have n5: "is_number_lexeme ''0012''" "has_leading_zero ''0012''"
    by code_simp+
  have n6: "\<not> is_number_lexeme ''hello world''"
    by code_simp
  have u2: "unescapeString [CHR ''a'', BSL, CHR ''n''] (Some 3) = Inr [CHR ''a'', LF]"
    by (simp add: unescapeString_def)
  have c1: "parsePrimitive [DQ, CHR ''a''] 3 = Inl (ToonDecodeError UnterminatedString 4)"
    using parsePrimitive_order [of "[DQ, CHR ''a'']" 3]
    by (simp add: t1 startsWith_def endsWith_def)
  have c2: "parsePrimitive [DQ, CHR ''a'', BSL, CHR ''n'', DQ] 3 = Inr (TString [CHR ''a'', LF])"
    using parsePrimitive_order [of "[DQ, CHR ''a'', BSL, CHR ''n'', DQ]" 3]
    by (simp add: t2 startsWith_def endsWith_def u2 bind_def)
  have c3: "parsePrimitive '' true '' 3 = Inr (TBool True)"
    using parsePrimitive_order [of "'' true ''" 3] by (simp add: t3)
  have c4: "parsePrimitive ''12'' 3 = Inr (TNumber (Fin 12))"
    using parsePrimitive_order [of "''12''" 3] by (simp add: t4 n4)
  have c5: "parsePrimitive ''0012'' 3 = Inr (TString ''0012'')"
    using parsePrimitive_order [of "''0012''" 3] by (simp add: t5 n5)
  have c6: "parsePrimitive '' hello world '' 3 = Inr (TString ''hello world'')"
    using parsePrimitive_order [of "'' hello world ''" 3]
    by (simp add: t6 n6 startsWith_def)
  from c1 c2 c3 c4 c5 c6 show ?thesis by simp
qed

text \<open>
  Claim C10. A lexeme that matches the number pattern and begins with a minus sign, a
  \<^verbatim>\<open>0\<close> and another digit, such as \<^verbatim>\<open>-007\<close>, is returned as a string, unchanged.
\<close>

theorem parsePrimitive_negative_leading_zero:
  assumes "is_number_lexeme (CHR ''-'' # CHR ''0'' # d # r)" and "is_digit d"
  shows "parsePrimitive (CHR ''-'' # CHR ''0'' # d # r) l = Inr (TString (CHR ''-'' # CHR ''0'' # d # r))"
proof -
  let ?s = "CHR ''-'' # CHR ''0'' # d # r"
  have t: "trim ?s = ?s" using assms(1) by (rule number_lexeme_trim)
  have z: "has_leading_zero ?s" using assms(2) by (simp add: has_leading_zero_def opt_minus_def)
  show ?thesis using parsePrimitive_leading_zero [of ?s l] assms(1) z by (simp add: t)
qed

theorem parsePrimitive_negative_leading_zero_witness:
  "is_number_lexeme ''-007'' \<and> is_digit (CHR ''0'') \<and> parsePrimitive ''-007'' 0 = Inr (TString ''-007'')"
proof -
  have h: "is_number_lexeme ''-007''" "is_digit (CHR ''0'')" by code_simp+
  with parsePrimitive_negative_leading_zero [of "CHR ''0''" "''7''" 0] show ?thesis by simp
qed

text \<open>
  Claim C5. A string that \<^verbatim>\<open>needsQuoting\<close> lets stand bare under a delimiter, and that
  is neither a keyword nor a number lexeme, is read back by \<^verbatim>\<open>parsePrimitive\<close> as that
  very string.
\<close>

theorem needsQuoting_false_parsePrimitive:
  assumes "needsQuoting s d = False"
    and "s \<noteq> ''true''" and "s \<noteq> ''false''" and "s \<noteq> ''null''"
    and "\<not> is_number_lexeme s"
  shows "parsePrimitive s l = Inr (TString s)"
proof -
  from assms(1) have t: "trim s = s"
    by (simp add: needsQuoting_def split: if_splits)
  from assms(1) have "DQ \<notin> set s"
    by (auto simp: needsQuoting_def split: if_splits)
  then have q: "\<not> startsWith s [DQ]"
    by (cases s) (auto simp: startsWith_def)
  show ?thesis
    using parsePrimitive_bare [of s l] assms(2-5) q by (simp add: t)
qed

theorem needsQuoting_false_parsePrimitive_witness:
  "needsQuoting ''hello world'' Comma = False \<and> \<not> is_number_lexeme ''hello world''
   \<and> parsePrimitive ''hello world'' 0 = Inr (TString ''hello world'')"
proof -
  have h: "needsQuoting ''hello world'' Comma = False" "\<not> is_number_lexeme ''hello world''"
    by code_simp+
  with needsQuoting_false_parsePrimitive [of "''hello world''" Comma 0] show ?thesis by simp
qed

section \<open>Strict indentation\<close>

lemma js_remainder_dvd:
  "0 < a \<Longrightarrow> js_remainder a ind \<noteq> Some 0 \<longleftrightarrow> \<not> ind dvd int a"
  by (auto simp: js_remainder_def dvd_eq_mod_eq_0 [symmetric])

lemma line_check:
  "trim line \<noteq> [] \<Longrightarrow>
   (includesChar (takeWhile is_space line) TAB
      \<or> (0 < getIndentLevel line \<and> js_remainder (getIndentLevel line) ind \<noteq> Some 0))
   \<longleftrightarrow> bad_indentation ind line"
  using js_remainder_dvd [of "getIndentLevel line" ind]
  by (cases "getIndentLevel line = 0")
     (auto simp: bad_indentation_def includesChar_def getIndentLevel_def)

lemma validateFrom_good:
  "\<forall>l\<in>set ls. \<not> bad_indentation ind l \<Longrightarrow> validateFrom ls ind k = Inr ()"
proof (induction ls arbitrary: k)
  case Nil
  show ?case by simp
next
  case (Cons line ls)
  then have ok: "\<not> bad_indentation ind line" and rest: "\<forall>l\<in>set ls. \<not> bad_indentation ind l"
    by auto
  show ?case
  proof (cases "trim line = []")
    case True
    with Cons.IH [OF rest] show ?thesis by simp
  next
    case False
    with ok line_check [of line ind] Cons.IH [OF rest] show ?thesis by auto
  qed
qed

lemma validateFrom_first_bad:
  assumes "i < length ls" and "bad_indentation ind (ls ! i)"
    and "\<forall>j<i. \<not> bad_indentation ind (ls ! j)"
  shows "validateFrom ls ind k = Inl (ToonDecodeError (indentation_message ind (ls ! i)) (k + i + 1))"
  using assms
proof (induction ls arbitrary: i k)
  case Nil
  then show ?case by simp
next
  case (Cons line ls)
  show ?case
  proof (cases i)
    case 0
    with Cons.prems(2) have bad: "bad_indentation ind line" by simp
    then have ne: "trim line \<noteq> []" by (simp add: bad_indentation_def)
    from bad line_check [OF ne, of ind]
    have "includesChar (takeWhile is_space line) TAB
      \<or> (0 < getIndentLevel line \<and> js_remainder (getIndentLevel line) ind \<noteq> Some 0)" by simp
    with ne 0 show ?thesis
      by (auto simp: indentation_message_def includesChar_def getIndentLevel_def)
  next
    case (Suc i')
    from Cons.prems(3) Suc have ok: "\<not> bad_indentation ind line" by auto
    from Cons.prems Suc have p: "i' < length ls" "bad_indentation ind (ls ! i')"
      "\<forall>j<i'. \<not> bad_indentation ind (ls ! j)" by auto
    have step: "validateFrom (line # ls) ind k = validateFrom ls ind (k + 1)"
    proof (cases "trim line = []")
      case True then show ?thesis by simp
    next
      case False
      with ok line_check [of line ind] show ?thesis by auto
    qed
    from Cons.IH [OF p, of "k + 1"] step Suc show ?thesis by simp
  qed
qed

lemma split_on_chars: "l \<in> set (split_on c s) \<Longrightarrow> set l \<subseteq> set s"
proof (induction s arbitrary: l)
  case Nil
  then show ?case by simp
next
  case (Cons x xs)
  show ?case
  proof (cases "x = c")
    case True
    with Cons show ?thesis by auto
  next
    case False
    show ?thesis
    proof (cases "split_on c xs")
      case Nil
      with Cons False show ?thesis by auto
    next
      case sp: (Cons y ys)
      with Cons.prems False have "l = x # y \<or> l \<in> set ys" by auto
      moreover have "set y \<subseteq> set xs" using Cons.IH [of y] sp by simp
      moreover have "\<And>l'. l' \<in> set ys \<Longrightarrow> set l' \<subseteq> set xs" using Cons.IH sp by simp
      ultimately show ?thesis by auto
    qed
  qed
qed

lemma nonblank_line_nonblank_text:
  assumes "l \<in> set (split_on c s)" and "trim l \<noteq> []"
  shows "trim s \<noteq> []"
proof -
  from assms(2) obtain x where "x \<in> set l" "\<not> is_space x" by (auto simp: trim_eq_Nil)
  with split_on_chars [OF assms(1)] show ?thesis by (auto simp: trim_eq_Nil)
qed


text \<open>
  Claim C8. In strict mode the indentation of every non-empty line is checked before
  anything is parsed: when the document has a line with a tab in its leading white space,
  or whose leading white space has a length that is not a multiple of the indent option,
  \<^verbatim>\<open>decode\<close> throws a decode error for the first such line, with that line's number
  counted from 1, whatever the rest of the document holds.
\<close>

theorem decode_strict_bad_indentation:
  assumes "strict options = Some True"
    and "i < length (split_on LF toon)"
    and "bad_indentation (indentOf (normalizeOptions options)) (split_on LF toon ! i)"
    and "\<forall>j<i. \<not> bad_indentation (indentOf (normalizeOptions options)) (split_on LF toon ! j)"
  shows "decode toon options =
           Inl (ToonDecodeError
                  (indentation_message (indentOf (normalizeOptions options)) (split_on LF toon ! i))
                  (i + 1))"
proof -
  let ?ls = "split_on LF toon"
  from assms(2) have mem: "?ls ! i \<in> set ?ls" by simp
  from assms(3) have "trim (?ls ! i) \<noteq> []" by (simp add: bad_indentation_def)
  with mem have ne: "trim toon \<noteq> []" by (rule nonblank_line_nonblank_text)
  from assms(1) have st: "is_strict (normalizeOptions options)"
    by (simp add: is_strict_def normalizeOptions_def)
  from validateFrom_first_bad [OF assms(2) assms(3) assms(4), of 0]
  have "validateIndentation ?ls (indentOf (normalizeOptions options))
          = Inl (ToonDecodeError
                  (indentation_message (indentOf (normalizeOptions options)) (?ls ! i)) (i + 1))"
    by (simp add: validateIndentation_def)
  with ne st show ?thesis by (simp add: decode_def Let_def)
qed

theorem decode_strict_bad_indentation_witness:
  "decode (''  a: 1'' @ [LF] @ '' a: 2'') \<lparr>strict = Some True, indent = Some 2, expandSafe = None\<rparr>
     = Inl (ToonDecodeError (InvalidIndentation 2 1) 2)"
proof -
  let ?doc = "''  a: 1'' @ [LF] @ '' a: 2''"
  let ?o = "\<lparr>strict = Some True, indent = Some 2, expandSafe = None\<rparr>"
  have ls: "split_on LF ?doc = [''  a: 1'', '' a: 2'']" by code_simp
  have ind: "indentOf (normalizeOptions ?o) = 2" by (simp add: indentOf_def normalizeOptions_def)
  have b1: "bad_indentation 2 '' a: 2''" by code_simp
  have b0: "\<not> bad_indentation 2 ''  a: 1''" by code_simp
  have m: "indentation_message 2 '' a: 2'' = InvalidIndentation 2 1" by code_simp
  have "\<forall>j<(1::nat). \<not> bad_indentation 2 ([''  a: 1'', '' a: 2''] ! j)" using b0 by simp
  with decode_strict_bad_indentation [of ?o 1 ?doc] b1 m show ?thesis
    by (simp add: ls ind)
qed

section \<open>Documents on which the decoder departs from the specification\<close>

text \<open>
  Claim C1, on the code. An inline array line whose number of values differs from the
  declared count makes \<^verbatim>\<open>decode\<close> fail with the count mismatch error, which names both
  counts; but the line the error carries is the index of the line counted from 0. For the
  document \<^verbatim>\<open>xs[3]: 1,2\<close> the error says expected 3, got 2, at line 0, not 1.
\<close>

theorem decode_inline_mismatch_line:
  "decode ''xs[3]: 1,2'' defaults = Inl (ToonDecodeError (ArrayCountMismatch (Some 3) 2) 0)"
  by code_simp

text \<open>
  With \<^verbatim>\<open>expandPaths: 'safe'\<close> the key \<^verbatim>\<open>a.b\<close> of the document below is unquoted,
  dotted and made of identifiers, but it is not replaced by nested objects: the prefix
  \<^verbatim>\<open>a\<close> holds \<^verbatim>\<open>null\<close>, which the conflict test for prefixes takes for an object, and
  the call ends in the runtime's \<^verbatim>\<open>TypeError\<close>, in strict mode and otherwise.
\<close>

theorem decode_expand_null_prefix:
  "decode (''a: null'' @ [LF] @ ''a.b: 1'') \<lparr>strict = None, indent = None, expandSafe = Some True\<rparr>
     = Inl TypeError"
  by code_simp

text \<open>
  Claim C6, on the code. An item or row past the declared count is ignored, not rejected:
  in a root list array, in a list array under a key, and in a table under a key.
\<close>

theorem decode_extra_items_ignored:
  "decode (''[2]:'' @ [LF] @ ''  - 1'' @ [LF] @ ''  - 2'' @ [LF] @ ''  - 3'') defaults
     = Inr (TArray [TNumber (Fin 1), TNumber (Fin 2)])
   \<and> decode (''xs[2]:'' @ [LF] @ ''  - 1'' @ [LF] @ ''  - 2'' @ [LF] @ ''  - 3'') defaults
     = Inr (TObject [(''xs'', TArray [TNumber (Fin 1), TNumber (Fin 2)])])
   \<and> decode (''xs[1]{a}:'' @ [LF] @ ''  1'' @ [LF] @ ''  2'') defaults
     = Inr (TObject [(''xs'', TArray [TObject [(''a'', TNumber (Fin 1))]])])"
  by code_simp

text \<open>
  Claim C9, on the code. After a line \<^verbatim>\<open>a:\<close> with an empty value, a following line at
  the same indentation becomes a field of the value of \<^verbatim>\<open>a\<close>, not a sibling: the nested
  call takes its base indentation from the next non-empty line, whatever it is.
\<close>

theorem decode_empty_key_takes_sibling:
  "decode (''a:'' @ [LF] @ ''b: 1'') defaults
     = Inr (TObject [(''a'', TObject [(''b'', TNumber (Fin 1))])])"
  by code_simp

section \<open>Documents on which the decoder does what the specification says\<close>

text \<open>
  The path expansion scenario of the specification: the two dotted keys are merged into
  one nested object under \<^verbatim>\<open>expandPaths: 'safe'\<close>, and kept as they are by default.
\<close>

theorem decode_path_expansion_scenario:
  "decode (''a.b.c: 1'' @ [LF] @ ''a.b.d: 2'') \<lparr>strict = None, indent = None, expandSafe = Some True\<rparr>
     = Inr (TObject [(''a'', TObject [(''b'',
              TObject [(''c'', TNumber (Fin 1)), (''d'', TNumber (Fin 2))])])])
   \<and> decode (''a.b.c: 1'' @ [LF] @ ''a.b.d: 2'') defaults
     = Inr (TObject [(''a.b.c'', TNumber (Fin 1)), (''a.b.d'', TNumber (Fin 2))])"
  by code_simp

text \<open>
  A key with an empty value followed by deeper lines takes them as its object, and a line
  back at the key's indentation is a sibling; at the end of the document the key's value
  is the empty object.
\<close>

theorem decode_nested_object:
  "decode (''a:'' @ [LF] @ ''  b: 1'' @ [LF] @ ''c: 2'') defaults
     = Inr (TObject [(''a'', TObject [(''b'', TNumber (Fin 1))]), (''c'', TNumber (Fin 2))])
   \<and> decode ''a:'' defaults = Inr (TObject [(''a'', TObject [])])"
  by code_simp

text \<open>A root table does reject an indented row past the declared count.\<close>

theorem decode_root_tabular_extra_row:
  "decode (''[1]{a}:'' @ [LF] @ ''  1'' @ [LF] @ ''  2'') defaults
     = Inl (ToonDecodeError (TabularExtraRows (Some 1)) 2)"
  by code_simp

section \<open>The number pattern as a grammar\<close>

lemma is_digit_chars:
  "\<not> is_digit (CHR ''-'')" "\<not> is_digit (CHR ''+'')" "\<not> is_digit (CHR ''.'')"
  "\<not> is_digit (CHR ''e'')" "\<not> is_digit (CHR ''E'')"
  by (simp_all add: is_digit_def code_unit_def)

lemma digits1_run:
  assumes "digit_run d" and "r = [] \<or> \<not> is_digit (hd r)"
  shows "digits1 (d @ r) = Some (d, r)"
proof -
  from assms(1) have all: "\<forall>c\<in>set d. is_digit c" and ne: "d \<noteq> []" by (auto simp: digit_run_def)
  from assms(2) have tr: "takeWhile is_digit r = []" by (cases r) auto
  from assms(2) have dr: "dropWhile is_digit r = r" by (cases r) auto
  from all have "takeWhile is_digit (d @ r) = d @ takeWhile is_digit r" by (simp add: takeWhile_append2)
  moreover from all have "dropWhile is_digit (d @ r) = dropWhile is_digit r" by (simp add: dropWhile_append2)
  ultimately show ?thesis using ne tr dr by (simp add: digits1_def)
qed

lemma number_shape_sound:
  assumes "is_number_lexeme s"
  shows "number_shape s"
proof -
  obtain neg s1 where m: "opt_minus s = (neg, s1)" by (cases "opt_minus s")
  from assms m obtain ip s2 where d: "digits1 s1 = Some (ip, s2)"
    by (auto simp: is_number_lexeme_def match_number_def split: option.splits)
  obtain fp s3 where f: "opt_fraction s2 = (fp, s3)" by (cases "opt_fraction s2")
  obtain ex s4 where e: "opt_exponent s3 = (ex, s4)" by (cases "opt_exponent s3")
  from assms m d f e have s4: "s4 = []"
    by (auto simp: is_number_lexeme_def match_number_def split: if_splits)
  from opt_minus_split [OF m] have 1: "s = (if neg then ''-'' else []) @ s1" .
  from digits1_split [OF d] have 2: "s1 = ip @ s2" "digit_run ip" by (auto simp: digit_run_def)
  from opt_fraction_split [OF f]
  have 3: "s2 = (case fp of None \<Rightarrow> [] | Some d \<Rightarrow> CHR ''.'' # d) @ s3"
    "case fp of None \<Rightarrow> True | Some d \<Rightarrow> digit_run d"
    by (auto simp: digit_run_def split: option.splits)
  have "\<exists>ex'. s3 = (case ex' of None \<Rightarrow> [] | Some (el, sg, d) \<Rightarrow> el # sg @ d)
      \<and> (case ex' of None \<Rightarrow> True
         | Some (el, sg, d) \<Rightarrow> (el = CHR ''e'' \<or> el = CHR ''E'')
             \<and> (sg = [] \<or> sg = ''+'' \<or> sg = ''-'') \<and> digit_run d)"
  proof -
    from opt_exponent_split [OF e] s4
    consider "s3 = []"
      | el sg d where "s3 = el # sg @ d" "el = CHR ''e'' \<or> el = CHR ''E''"
          "sg = [] \<or> sg = ''+'' \<or> sg = ''-''" "digit_run d"
      by (auto simp: digit_run_def)
    then show ?thesis
    proof cases
      case 1
      then show ?thesis by (intro exI [of _ None]) simp
    next
      case (2 el sg d)
      then show ?thesis by (intro exI [of _ "Some (el, sg, d)"]) simp
    qed
  qed
  then obtain ex' where 4: "s3 = (case ex' of None \<Rightarrow> [] | Some (el, sg, d) \<Rightarrow> el # sg @ d)"
    "case ex' of None \<Rightarrow> True
     | Some (el, sg, d) \<Rightarrow> (el = CHR ''e'' \<or> el = CHR ''E'') \<and> (sg = [] \<or> sg = ''+'' \<or> sg = ''-'')
         \<and> digit_run d"
    by blast
  from 1 2 3 4 have "s = number_text neg ip fp ex'" by (simp add: number_text_def)
  with 2 3 4 show ?thesis unfolding number_shape_def by blast
qed

lemma number_shape_complete:
  assumes "number_shape s"
  shows "is_number_lexeme s"
proof -
  from assms obtain neg ip fp ex where s: "s = number_text neg ip fp ex" and ip: "digit_run ip"
    and fp: "case fp of None \<Rightarrow> True | Some d \<Rightarrow> digit_run d"
    and ex: "case ex of None \<Rightarrow> True
            | Some (el, sg, d) \<Rightarrow>
                (el = CHR ''e'' \<or> el = CHR ''E'') \<and> (sg = [] \<or> sg = ''+'' \<or> sg = ''-'')
                \<and> digit_run d"
    unfolding number_shape_def by blast
  let ?e = "case ex of None \<Rightarrow> [] | Some (el, sg, d) \<Rightarrow> el # sg @ d"
  let ?f = "(case fp of None \<Rightarrow> [] | Some d \<Rightarrow> CHR ''.'' # d) @ ?e"
  have e_hd: "?e = [] \<or> (hd ?e = CHR ''e'' \<or> hd ?e = CHR ''E'')"
    using ex by (auto split: option.splits)
  then have e_nd: "?e = [] \<or> \<not> is_digit (hd ?e)" using is_digit_chars by auto
  have e_ndot: "?e = [] \<or> hd ?e \<noteq> CHR ''.''" using e_hd by auto
  have oe: "opt_exponent ?e = (map_option (\<lambda>(el, sg, d). (sg = ''-'', d)) ex, [])"
  proof (cases ex)
    case None then show ?thesis by (simp add: opt_exponent_def)
  next
    case (Some t)
    obtain el sg d where t: "t = (el, sg, d)" by (cases t)
    with Some ex have el: "el = CHR ''e'' \<or> el = CHR ''E''" and sg: "sg = [] \<or> sg = ''+'' \<or> sg = ''-''"
      and d: "digit_run d" by auto
    from d obtain c r where dc: "d = c # r" "is_digit c" by (cases d) (auto simp: digit_run_def)
    then have cs: "c \<noteq> CHR ''+''" "c \<noteq> CHR ''-''" using is_digit_chars by auto
    from sg dc cs have os: "opt_sign (sg @ d) = (sg = ''-'', d)"
      by (auto simp: opt_sign_def)
    from digits1_run [OF d, of "[]"] have dg: "digits1 d = Some (d, [])" by simp
    from Some t el os dg show ?thesis by (auto simp: opt_exponent_def)
  qed
  have f_nd: "?f = [] \<or> \<not> is_digit (hd ?f)"
    using e_nd is_digit_chars by (cases fp) auto
  have "opt_fraction ?f = (fp, ?e)"
  proof (cases fp)
    case None
    with e_ndot show ?thesis by (cases ?e) (auto simp: opt_fraction_def)
  next
    case (Some d)
    with fp have "digit_run d" by simp
    from digits1_run [OF this e_nd] Some show ?thesis by (simp add: opt_fraction_def)
  qed
  moreover have "digits1 (ip @ ?f) = Some (ip, ?f)" using ip f_nd by (rule digits1_run)
  moreover have "opt_minus s = (neg, ip @ ?f)"
  proof -
    from ip obtain c r where "ip = c # r" "is_digit c" by (cases ip) (auto simp: digit_run_def)
    then show ?thesis using is_digit_chars by (auto simp: s number_text_def opt_minus_def)
  qed
  ultimately show ?thesis using oe
    by (simp add: is_number_lexeme_def match_number_def)
qed

text \<open>
  The scan that stands for the number pattern accepts exactly the texts made of an optional
  minus sign, a run of digits, an optional fraction (a dot and a run of digits) and an
  optional exponent (\<^verbatim>\<open>e\<close> or \<^verbatim>\<open>E\<close>, an optional sign, a run of digits).
\<close>

theorem number_lexeme_shape: "is_number_lexeme s \<longleftrightarrow> number_shape s"
  using number_shape_sound number_shape_complete by blast

theorem number_lexeme_shape_witness:
  "is_number_lexeme ''-2.5E-3'' \<and> number_shape ''-2.5E-3''"
proof -
  have "is_number_lexeme ''-2.5E-3''" by code_simp
  with number_lexeme_shape [of "''-2.5E-3''"] show ?thesis by simp
qed

section \<open>Path expansion\<close>

lemma map_of_obj_insert:
  "k \<notin> fst ` set es \<Longrightarrow>
   map_of (obj_insert k v es) k' = (if k' = k then Some v else map_of es k')"
  by (induction es) (auto split: option.splits)

lemma map_of_map_replace:
  "map_of (map (\<lambda>(a, b). if a = k then (a, v) else (a, b)) es) k'
     = (if k' = k then (if k \<in> fst ` set es then Some v else None) else map_of es k')"
  by (induction es) (force simp: image_iff)+

lemma map_of_obj_define:
  "map_of (obj_define es k v) k' = (if k' = k then Some v else map_of es k')"
  by (simp add: obj_define_def map_of_obj_insert map_of_map_replace)












lemma map_of_fold_define:
  "map_of (foldl (\<lambda>acc (k, v). obj_define acc k v) acc es) k
     = (case map_of (rev es) k of Some x \<Rightarrow> Some x | None \<Rightarrow> map_of acc k)"
proof (induction es arbitrary: acc)
  case Nil
  show ?case by simp
next
  case (Cons e es)
  obtain a b where e: "e = (a, b)" by (cases e)
  show ?case
    by (simp add: e Cons.IH map_of_obj_define map_of_append map_add_def split: option.splits)
qed

lemma map_of_rev_distinct: "distinct (map fst xs) \<Longrightarrow> map_of (rev xs) k = map_of xs k"
proof (induction xs)
  case Nil
  show ?case by simp
next
  case (Cons x xs)
  obtain a b where x: "x = (a, b)" by (cases x)
  with Cons.prems have na: "a \<notin> fst ` set xs" and d: "distinct (map fst xs)" by auto
  from na have none: "map_of xs a = None" by (simp add: map_of_eq_None_iff)
  show ?case
    using Cons.IH [OF d] none
    by (simp add: x map_of_append map_add_def split: option.splits)
qed

text \<open>
  The spread \<^verbatim>\<open>{...existing, ...value}\<close> of two objects with distinct keys: the keys of
  the new value win.
\<close>

theorem obj_spread_new_keys_win:
  "distinct (map fst e) \<and> distinct (map fst n) \<longrightarrow>
   map_of (obj_spread e n) k = (case map_of n k of Some x \<Rightarrow> Some x | None \<Rightarrow> map_of e k)"
  by (simp add: obj_spread_def map_of_fold_define map_of_append map_add_def
        map_of_rev_distinct split: option.splits)

theorem obj_spread_new_keys_win_witness:
  "map_of (obj_spread [(''c'', TNumber (Fin 1)), (''d'', TNull)] [(''d'', TNumber (Fin 2))]) ''d''
     = Some (TNumber (Fin 2))"
proof -
  have "distinct (map fst [(''c'', TNumber (Fin 1)), (''d'', TNull)])
        \<and> distinct (map fst [(''d'', TNumber (Fin 2))])" by simp
  with obj_spread_new_keys_win
         [of "[(''c'', TNumber (Fin 1)), (''d'', TNull)]" "[(''d'', TNumber (Fin 2))]" "''d''"]
  show ?thesis by simp
qed

section \<open>Path expansion, key by key\<close>








end
